theory Spec2Isabelle
  imports Complex_Main
begin

section \<open>Data model\<close>

text \<open>
  The vector indexing and retrieval pipelines of \<^verbatim>\<open>knowledgehub/indices/vectorindex.py\<close>,
  the Cohere reranker of \<^verbatim>\<open>knowledgehub/indices/rankings/cohere.py\<close> and the older
  pipeline of \<^verbatim>\<open>knowledgehub/pipelines/indexing.py\<close>, embedded as state-passing
  functions. The embedding model, the two stores, the rerankers of a pipeline and the
  Cohere client library are collaborators whose code is not part of the repository: they
  are parameters of the model, and every call made to one of them is recorded, in order,
  in the state.
\<close>

datatype mvalue = MStr string | MFloat real

text \<open>
  Modelled from the spec: the class \<^verbatim>\<open>Document\<close> (imported from \<^verbatim>\<open>kotaemon.base\<close>) is not
  in the sources. The spec gives a Document an identifier, a text content and a metadata
  mapping with string keys. The field \<open>doc_id\<close> is the attribute \<^verbatim>\<open>id_\<close>; the field
  \<open>content\<close> holds what the constructor receives as \<^verbatim>\<open>text=\<close> and what
  \<^verbatim>\<open>d.content\<close> reads. A \<^verbatim>\<open>RetrievedDocument\<close> is a Document with
  a score, and what the embedding model returns is a Document with its vector, read by
  \<^verbatim>\<open>.embedding\<close>.
\<close>

record Document =
  doc_id :: string
  content :: string
  metadata :: "string \<rightharpoonup> mvalue"

record RetrievedDocument = Document +
  score :: real

record DocumentWithEmbedding = Document +
  embedding :: "real list"

text \<open>The Python values an indexing or retrieval call can be handed.\<close>

datatype pyval =
    PStr string
  | PDoc Document
  | PInt int
  | PNone
  | PList "pyval list"

text \<open>\<^verbatim>\<open>pathlib.Path\<close> as its list of segments; \<^verbatim>\<open>path / name\<close> for a relative one-segment name.\<close>

datatype pypath = Path "string list"

fun truediv :: "pypath \<Rightarrow> string \<Rightarrow> pypath" where
  "truediv (Path segs) name = Path (segs @ [name])"

datatype error =
    ValueError string
  | ImportError string
  | AttributeError string
  | IndexError
  | External string

text \<open>One entry per call made to a collaborator, with the arguments of the call.\<close>

datatype event =
    Embed pyval
  | VSAdd "DocumentWithEmbedding list" "string list"
  | VSQuery "real list" int
  | VSSave pypath
  | VSLoad pypath
  | DSAdd "Document list"
  | DSGet "string list"
  | DSSave pypath
  | DSLoad pypath
  | Rerank string "RetrievedDocument list" pyval
  | CohereClient string
  | CohereRerank string string "string list" int

text \<open>
  The state: the calls made so far, and the generator behind \<^verbatim>\<open>uuid.uuid4()\<close>, given by
  the sequence of strings it yields and the number of them already drawn.
\<close>

record world =
  calls :: "event list"
  uuid_seq :: "nat \<Rightarrow> string"
  uuid_count :: nat

text \<open>
  A computation takes the state and returns a value or the exception raised, with the
  state as it is at that moment: what happened before a raise stays.
\<close>

type_synonym ('s, 'a) prog = "'s \<Rightarrow> (error + 'a) \<times> 's"

definition ret :: "'a \<Rightarrow> ('s, 'a) prog" where
  "ret x = (\<lambda>s. (Inr x, s))"

definition raise :: "error \<Rightarrow> ('s, 'a) prog" where
  "raise e = (\<lambda>s. (Inl e, s))"

definition andThen :: "('s, 'a) prog \<Rightarrow> ('a \<Rightarrow> ('s, 'b) prog) \<Rightarrow> ('s, 'b) prog" where
  "andThen m f = (\<lambda>s. case m s of (Inl e, s') \<Rightarrow> (Inl e, s') | (Inr x, s') \<Rightarrow> f x s')"

text \<open>
  A call to a collaborator: its answer may depend on everything it was asked before
  (the stores are stateful), so it is a function of the calls made so far; an answer
  \<open>Inl e\<close> is an exception raised by the collaborator. The call is recorded either way.
\<close>

definition extcall :: "event \<Rightarrow> (event list \<Rightarrow> error + 'a) \<Rightarrow> ('m world_scheme, 'a) prog" where
  "extcall ev answer = (\<lambda>w. (answer (calls w), w\<lparr>calls := calls w @ [ev]\<rparr>))"

definition uuid4 :: "('m world_scheme, string) prog" where
  "uuid4 = (\<lambda>w. (Inr (uuid_seq w (uuid_count w)), w\<lparr>uuid_count := Suc (uuid_count w)\<rparr>))"

section \<open>Collaborators\<close>

record BaseEmbeddings =
  embed :: "event list \<Rightarrow> pyval \<Rightarrow> error + DocumentWithEmbedding list"

record BaseVectorStore =
  vs_add :: "event list \<Rightarrow> DocumentWithEmbedding list \<Rightarrow> string list \<Rightarrow> error + unit"
  vs_query :: "event list \<Rightarrow> real list \<Rightarrow> int \<Rightarrow> error + (pyval list \<times> real list \<times> string list)"
  vs_save :: "event list \<Rightarrow> pypath \<Rightarrow> error + unit"
  vs_load :: "event list \<Rightarrow> pypath \<Rightarrow> error + unit"

text \<open>
  \<open>ds_truth\<close> is Python's truth value of the store object, the one \<^verbatim>\<open>if store:\<close> tests: a
  class that defines \<^verbatim>\<open>__bool__\<close> or \<^verbatim>\<open>__len__\<close> decides it from its state, any other object is
  true.
\<close>

record BaseDocumentStore =
  ds_truth :: "event list \<Rightarrow> bool"
  ds_add :: "event list \<Rightarrow> Document list \<Rightarrow> error + unit"
  ds_get :: "event list \<Rightarrow> string list \<Rightarrow> error + Document list"
  ds_save :: "event list \<Rightarrow> pypath \<Rightarrow> error + unit"
  ds_load :: "event list \<Rightarrow> pypath \<Rightarrow> error + unit"

record BaseReranking =
  rr_name :: string
  rerank :: "event list \<Rightarrow> RetrievedDocument list \<Rightarrow> pyval \<Rightarrow> error + RetrievedDocument list"

definition call_embedding :: "BaseEmbeddings \<Rightarrow> pyval \<Rightarrow> ('m world_scheme, DocumentWithEmbedding list) prog" where
  "call_embedding m x = extcall (Embed x) (\<lambda>h. embed m h x)"

definition add_vectors :: "BaseVectorStore \<Rightarrow> DocumentWithEmbedding list \<Rightarrow> string list \<Rightarrow> ('m world_scheme, unit) prog" where
  "add_vectors vs embeddings ids = extcall (VSAdd embeddings ids) (\<lambda>h. vs_add vs h embeddings ids)"

definition query_vectors :: "BaseVectorStore \<Rightarrow> real list \<Rightarrow> int \<Rightarrow> ('m world_scheme, pyval list \<times> real list \<times> string list) prog" where
  "query_vectors vs emb k = extcall (VSQuery emb k) (\<lambda>h. vs_query vs h emb k)"

definition add_documents :: "BaseDocumentStore \<Rightarrow> Document list \<Rightarrow> ('m world_scheme, unit) prog" where
  "add_documents ds docs = extcall (DSAdd docs) (\<lambda>h. ds_add ds h docs)"

definition truth_value :: "BaseDocumentStore \<Rightarrow> ('m world_scheme, bool) prog" where
  "truth_value ds = (\<lambda>w. (Inr (ds_truth ds (calls w)), w))"

text \<open>
  The statement \<^verbatim>\<open>if self.doc_store: self.doc_store.add(docs)\<close> that ends both indexing
  methods, for a \<open>doc_store\<close> that is \<open>None\<close> or a store object: the test is Python truth, so
  \<open>None\<close> is skipped and so is a store whose object is false.
\<close>

fun doc_store_add_if_true :: "BaseDocumentStore option \<Rightarrow> Document list \<Rightarrow> ('m world_scheme, unit) prog" where
  "doc_store_add_if_true None docs = ret ()"
| "doc_store_add_if_true (Some ds) docs =
     andThen (truth_value ds) (\<lambda>true. if true then add_documents ds docs else ret ())"

definition get_documents :: "BaseDocumentStore \<Rightarrow> string list \<Rightarrow> ('m world_scheme, Document list) prog" where
  "get_documents ds ids = extcall (DSGet ids) (\<lambda>h. ds_get ds h ids)"

definition call_reranker :: "BaseReranking \<Rightarrow> RetrievedDocument list \<Rightarrow> pyval \<Rightarrow> ('m world_scheme, RetrievedDocument list) prog" where
  "call_reranker r documents query = extcall (Rerank (rr_name r) documents query) (\<lambda>h. rerank r h documents query)"

section \<open>vectorindex.py: VectorIndexing\<close>

text \<open>The two module constants, the same in \<^verbatim>\<open>vectorindex.py\<close> and in \<^verbatim>\<open>pipelines/indexing.py\<close>.\<close>

definition VECTOR_STORE_FNAME :: string where
  "VECTOR_STORE_FNAME = ''vectorstore''"

definition DOC_STORE_FNAME :: string where
  "DOC_STORE_FNAME = ''docstore''"

record VectorIndexing =
  vector_store :: BaseVectorStore
  doc_store :: "BaseDocumentStore option"
  embedding :: BaseEmbeddings

text \<open>The three \<^verbatim>\<open>isinstance\<close> tests of \<^verbatim>\<open>VectorIndexing.run\<close>.\<close>

fun isinstance_list :: "pyval \<Rightarrow> bool" where
  "isinstance_list (PList _) = True"
| "isinstance_list _ = False"

fun isinstance_str :: "pyval \<Rightarrow> bool" where
  "isinstance_str (PStr _) = True"
| "isinstance_str _ = False"

fun isinstance_Document :: "pyval \<Rightarrow> bool" where
  "isinstance_Document (PDoc _) = True"
| "isinstance_Document _ = False"

text \<open>A name between single quotes, as Python prints it in a message.\<close>

definition quoted :: "string \<Rightarrow> string" where
  "quoted s = [CHR 0x27] @ s @ [CHR 0x27]"

text \<open>\<^verbatim>\<open>type(item)\<close> as the f-string of the error message prints it.\<close>

fun type_repr :: "pyval \<Rightarrow> string" where
  "type_repr (PStr _) = ''<class '' @ quoted ''str'' @ ''>''"
| "type_repr (PDoc _) = ''<class '' @ quoted ''kotaemon.base.Document'' @ ''>''"
| "type_repr (PInt _) = ''<class '' @ quoted ''int'' @ ''>''"
| "type_repr PNone = ''<class '' @ quoted ''NoneType'' @ ''>''"
| "type_repr (PList _) = ''<class '' @ quoted ''list'' @ ''>''"

text \<open>\<^verbatim>\<open>Document(text=t, id_=i)\<close>: the metadata of a new Document is empty.\<close>

definition new_Document :: "string \<Rightarrow> string \<Rightarrow> Document" where
  "new_Document t i = \<lparr>doc_id = i, content = t, metadata = Map.empty\<rparr>"

text \<open>The \<^verbatim>\<open>for item in text\<close> loop of \<^verbatim>\<open>VectorIndexing.run\<close>, \<open>input\<close> being the list built so far.\<close>

fun collect_input :: "pyval list \<Rightarrow> Document list \<Rightarrow> ('m world_scheme, Document list) prog" where
  "collect_input [] input = ret input"
| "collect_input (PStr s # items) input =
     andThen uuid4 (\<lambda>u. collect_input items (input @ [new_Document s u]))"
| "collect_input (PDoc d # items) input = collect_input items (input @ [d])"
| "collect_input (item # items) input =
     raise (ValueError (''Invalid input type '' @ type_repr item @ '', should be str or Document''))"

definition VectorIndexing_run :: "VectorIndexing \<Rightarrow> pyval \<Rightarrow> ('m world_scheme, unit) prog" where
  "VectorIndexing_run self text =
     andThen (collect_input (case text of PList items \<Rightarrow> items | _ \<Rightarrow> [text]) []) (\<lambda>input.
     andThen (call_embedding (VectorIndexing.embedding self) (PList (map PDoc input))) (\<lambda>embeddings.
     andThen (add_vectors (VectorIndexing.vector_store self) embeddings (map doc_id input)) (\<lambda>_.
     doc_store_add_if_true (VectorIndexing.doc_store self) input)))"

section \<open>vectorindex.py: VectorRetrieval\<close>

record VectorRetrieval =
  vector_store :: BaseVectorStore
  doc_store :: "BaseDocumentStore option"
  embedding :: BaseEmbeddings
  rerankers :: "BaseReranking list"
  top_k :: int

text \<open>\<^verbatim>\<open>RetrievedDocument(**doc.to_dict(), score=score)\<close>: the fields of the Document, and the score.\<close>

definition new_RetrievedDocument :: "Document \<Rightarrow> real \<Rightarrow> RetrievedDocument" where
  "new_RetrievedDocument doc s = \<lparr>doc_id = doc_id doc, content = content doc, metadata = metadata doc, score = s\<rparr>"

text \<open>
  The \<^verbatim>\<open>for reranker in self.rerankers\<close> loop, \<open>result\<close> being the list so far. The test
  \<^verbatim>\<open>if self.rerankers:\<close> around it only skips a loop that would not run; there is no test
  on \<open>result\<close>.
\<close>

fun rerank_loop :: "BaseReranking list \<Rightarrow> RetrievedDocument list \<Rightarrow> pyval \<Rightarrow> ('m world_scheme, RetrievedDocument list) prog" where
  "rerank_loop [] result text = ret result"
| "rerank_loop (reranker # rest) result text =
     andThen (call_reranker reranker result text) (\<lambda>result'. rerank_loop rest result' text)"

text \<open>
  \<^verbatim>\<open>VectorRetrieval.run\<close>; \<open>top_k_arg\<close> is the optional argument, \<open>None\<close> when the caller
  leaves it out. \<^verbatim>\<open>self.embedding(text)[0]\<close> raises \<^verbatim>\<open>IndexError\<close> on an empty answer.
\<close>

definition VectorRetrieval_run :: "VectorRetrieval \<Rightarrow> pyval \<Rightarrow> int option \<Rightarrow> ('m world_scheme, RetrievedDocument list) prog" where
  "VectorRetrieval_run self text top_k_arg =
     (let top_k = (case top_k_arg of None \<Rightarrow> VectorRetrieval.top_k self | Some k \<Rightarrow> k) in
      case VectorRetrieval.doc_store self of
        None \<Rightarrow> raise (ValueError ''doc_store is not provided. Please provide a doc_store to retrieve the documents'')
      | Some ds \<Rightarrow>
          andThen (call_embedding (VectorRetrieval.embedding self) text) (\<lambda>embs.
          case embs of
            [] \<Rightarrow> raise IndexError
          | e # _ \<Rightarrow>
              andThen (query_vectors (VectorRetrieval.vector_store self) (DocumentWithEmbedding.embedding e) top_k) (\<lambda>(_, scores, ids).
              andThen (get_documents ds ids) (\<lambda>docs.
              rerank_loop (rerankers self) (map (\<lambda>(doc, score). new_RetrievedDocument doc score) (zip docs scores)) text))))"

section \<open>pipelines/indexing.py: IndexVectorStoreFromDocumentPipeline\<close>

text \<open>
  \<open>doc_store\<close> is declared \<^verbatim>\<open>Param[BaseDocumentStore] = Param()\<close>, a parameter with no default:
  a pipeline is built with a store, with \<open>None\<close>, or without the parameter, and then it is
  \<open>Unset\<close>. Reading an unset parameter raises \<^verbatim>\<open>AttributeError\<close>; the library that words the
  message is not in the sources, and the model keeps the name of the parameter in its
  place. The vector store and the embedding model are taken as given.
\<close>

datatype 'a Param = Unset | Given 'a

definition unset_parameter :: "string \<Rightarrow> error" where
  "unset_parameter name = AttributeError name"

record IndexVectorStoreFromDocumentPipeline =
  vector_store :: BaseVectorStore
  doc_store :: "BaseDocumentStore option Param"
  embedding :: BaseEmbeddings

definition run_batch_document :: "IndexVectorStoreFromDocumentPipeline \<Rightarrow> Document list \<Rightarrow> ('m world_scheme, unit) prog" where
  "run_batch_document self text =
     andThen (call_embedding (IndexVectorStoreFromDocumentPipeline.embedding self) (PList (map PDoc text))) (\<lambda>embeddings.
     andThen (add_vectors (IndexVectorStoreFromDocumentPipeline.vector_store self) embeddings (map doc_id text)) (\<lambda>_.
     case IndexVectorStoreFromDocumentPipeline.doc_store self of
       Unset \<Rightarrow> raise (unset_parameter ''doc_store'')
     | Given store \<Rightarrow> doc_store_add_if_true store text))"

definition run_document :: "IndexVectorStoreFromDocumentPipeline \<Rightarrow> Document \<Rightarrow> ('m world_scheme, unit) prog" where
  "run_document self text = run_batch_document self [text]"

definition run_raw :: "IndexVectorStoreFromDocumentPipeline \<Rightarrow> string \<Rightarrow> ('m world_scheme, unit) prog" where
  "run_raw self text = andThen uuid4 (\<lambda>u. run_batch_document self [new_Document text u])"

text \<open>The list comprehension of \<^verbatim>\<open>run_batch_raw\<close>: one Document, and one identifier drawn, per text.\<close>

fun new_Documents :: "string list \<Rightarrow> ('m world_scheme, Document list) prog" where
  "new_Documents [] = ret []"
| "new_Documents (t # ts) =
     andThen uuid4 (\<lambda>u. andThen (new_Documents ts) (\<lambda>documents. ret (new_Document t u # documents)))"

definition run_batch_raw :: "IndexVectorStoreFromDocumentPipeline \<Rightarrow> string list \<Rightarrow> ('m world_scheme, unit) prog" where
  "run_batch_raw self text = andThen (new_Documents text) (\<lambda>documents. run_batch_document self documents)"

text \<open>
  \<^verbatim>\<open>save\<close> and \<^verbatim>\<open>load\<close>: the two file names are keyword parameters whose defaults are the
  module constants; \<open>None\<close> is a call that leaves the parameter out. A path given as a
  string is first made a \<^verbatim>\<open>Path\<close>, which is what \<open>pypath\<close> stands for. Reading
  \<^verbatim>\<open>self.doc_store.save\<close> on \<open>None\<close> raises \<^verbatim>\<open>AttributeError\<close>; there is no test of
  \<open>doc_store\<close> before it.
\<close>

definition no_attribute :: "string \<Rightarrow> error" where
  "no_attribute name = AttributeError (quoted ''NoneType'' @ '' object has no attribute '' @ quoted name)"

definition save :: "IndexVectorStoreFromDocumentPipeline \<Rightarrow> pypath \<Rightarrow> string option \<Rightarrow> string option \<Rightarrow> ('m world_scheme, unit) prog" where
  "save self path vectorstore_fname docstore_fname =
     andThen (extcall (VSSave (truediv path (case vectorstore_fname of None \<Rightarrow> VECTOR_STORE_FNAME | Some n \<Rightarrow> n)))
                (\<lambda>h. vs_save (IndexVectorStoreFromDocumentPipeline.vector_store self) h
                        (truediv path (case vectorstore_fname of None \<Rightarrow> VECTOR_STORE_FNAME | Some n \<Rightarrow> n)))) (\<lambda>_.
     case IndexVectorStoreFromDocumentPipeline.doc_store self of
       Unset \<Rightarrow> raise (unset_parameter ''doc_store'')
     | Given None \<Rightarrow> raise (no_attribute ''save'')
     | Given (Some ds) \<Rightarrow>
         extcall (DSSave (truediv path (case docstore_fname of None \<Rightarrow> DOC_STORE_FNAME | Some n \<Rightarrow> n)))
           (\<lambda>h. ds_save ds h (truediv path (case docstore_fname of None \<Rightarrow> DOC_STORE_FNAME | Some n \<Rightarrow> n))))"

definition load :: "IndexVectorStoreFromDocumentPipeline \<Rightarrow> pypath \<Rightarrow> string option \<Rightarrow> string option \<Rightarrow> ('m world_scheme, unit) prog" where
  "load self path vectorstore_fname docstore_fname =
     andThen (extcall (VSLoad (truediv path (case vectorstore_fname of None \<Rightarrow> VECTOR_STORE_FNAME | Some n \<Rightarrow> n)))
                (\<lambda>h. vs_load (IndexVectorStoreFromDocumentPipeline.vector_store self) h
                        (truediv path (case vectorstore_fname of None \<Rightarrow> VECTOR_STORE_FNAME | Some n \<Rightarrow> n)))) (\<lambda>_.
     case IndexVectorStoreFromDocumentPipeline.doc_store self of
       Unset \<Rightarrow> raise (unset_parameter ''doc_store'')
     | Given None \<Rightarrow> raise (no_attribute ''load'')
     | Given (Some ds) \<Rightarrow>
         extcall (DSLoad (truediv path (case docstore_fname of None \<Rightarrow> DOC_STORE_FNAME | Some n \<Rightarrow> n)))
           (\<lambda>h. ds_load ds h (truediv path (case docstore_fname of None \<Rightarrow> DOC_STORE_FNAME | Some n \<Rightarrow> n))))"

section \<open>rankings/cohere.py: CohereReranking\<close>

text \<open>
  The reranker changes the Documents it is given, so here a Document is an object at
  an address: the state has a store of objects, and a list of Documents is a list of
  addresses. The objects can be of any class that extends Document.
\<close>

record 'o objworld = world +
  heap :: "nat \<Rightarrow> 'o"

record CohereReranking =
  model_name :: string
  cohere_api_key :: string
  top_k :: int

text \<open>
  The \<^verbatim>\<open>cohere\<close> package, which is not a declared dependency of the repository: whether
  \<^verbatim>\<open>import cohere\<close> succeeds, what \<^verbatim>\<open>cohere.Client(key)\<close> does, and what the client's
  \<^verbatim>\<open>rerank\<close> answers, a sequence of results that each carry \<^verbatim>\<open>index\<close> and
  \<^verbatim>\<open>relevance_score\<close>.
\<close>

record rerank_result =
  index :: int
  relevance_score :: real

record cohere_package =
  importable :: bool
  Client :: "event list \<Rightarrow> string \<Rightarrow> error + unit"
  client_rerank :: "event list \<Rightarrow> string \<Rightarrow> string \<Rightarrow> string list \<Rightarrow> int \<Rightarrow> error + rerank_result list"

text \<open>\<^verbatim>\<open>documents[i]\<close> on a Python list: a negative index counts from the end, out of range raises.\<close>

definition getitem :: "'a list \<Rightarrow> int \<Rightarrow> error + 'a" where
  "getitem xs i =
     (if 0 \<le> i \<and> i < int (length xs) then Inr (xs ! nat i)
      else if i < 0 \<and> - int (length xs) \<le> i then Inr (xs ! nat (int (length xs) + i))
      else Inl IndexError)"

text \<open>\<^verbatim>\<open>doc.metadata["relevance_score"] = s\<close> on the object at address \<open>doc\<close>.\<close>

definition set_relevance_score :: "nat \<Rightarrow> real \<Rightarrow> ('x Document_scheme objworld, unit) prog" where
  "set_relevance_score doc s =
     (\<lambda>w. (Inr (), w\<lparr>heap := (heap w)(doc := (heap w doc)\<lparr>metadata := (metadata (heap w doc))(''relevance_score'' \<mapsto> MFloat s)\<rparr>)\<rparr>))"

text \<open>\<^verbatim>\<open>[d.content for d in documents]\<close>.\<close>

definition contents :: "nat list \<Rightarrow> ('x Document_scheme objworld, string list) prog" where
  "contents documents = (\<lambda>w. (Inr (map (\<lambda>d. content (heap w d)) documents), w))"

text \<open>The \<^verbatim>\<open>for r in results\<close> loop, \<open>compressed_docs\<close> being the list built so far.\<close>

fun compress :: "nat list \<Rightarrow> rerank_result list \<Rightarrow> nat list \<Rightarrow> ('x Document_scheme objworld, nat list) prog" where
  "compress documents [] compressed_docs = ret compressed_docs"
| "compress documents (r # results) compressed_docs =
     (case getitem documents (index r) of
        Inl e \<Rightarrow> raise e
      | Inr doc \<Rightarrow>
          andThen (set_relevance_score doc (relevance_score r)) (\<lambda>_.
          compress documents results (compressed_docs @ [doc])))"

definition CohereReranking_run :: "CohereReranking \<Rightarrow> cohere_package \<Rightarrow> nat list \<Rightarrow> string \<Rightarrow> ('x Document_scheme objworld, nat list) prog" where
  "CohereReranking_run self cohere documents query =
     (if \<not> importable cohere
      then raise (ImportError ''Please install Cohere `pip install cohere` to use Cohere Reranking'')
      else
        andThen (extcall (CohereClient (cohere_api_key self)) (\<lambda>h. Client cohere h (cohere_api_key self))) (\<lambda>cohere_client.
        if documents = [] then ret []
        else
          andThen (contents documents) (\<lambda>docs.
          andThen (extcall (CohereRerank (model_name self) query docs (CohereReranking.top_k self))
                     (\<lambda>h. client_rerank cohere h (model_name self) query docs (CohereReranking.top_k self))) (\<lambda>results.
          compress documents results []))))"

section \<open>Test doubles\<close>

text \<open>
  Small collaborators on which the pipelines can be run: an embedding model that turns
  a text into a two-component vector, a vector store and a document store that answer
  from what was added to them so far, two rerankers, and a Cohere package that ranks
  the documents it is sent in reverse order.
\<close>

fun stub_embed_one :: "pyval \<Rightarrow> DocumentWithEmbedding" where
  "stub_embed_one (PDoc d) =
     \<lparr>doc_id = doc_id d, content = content d, metadata = metadata d, DocumentWithEmbedding.embedding = [real (length (content d)), 1]\<rparr>"
| "stub_embed_one (PStr s) =
     \<lparr>doc_id = [], content = s, metadata = Map.empty, DocumentWithEmbedding.embedding = [real (length s), 1]\<rparr>"
| "stub_embed_one _ = \<lparr>doc_id = [], content = [], metadata = Map.empty, DocumentWithEmbedding.embedding = [0, 1]\<rparr>"

definition stub_embeddings :: BaseEmbeddings where
  "stub_embeddings =
     \<lparr>embed = (\<lambda>h x. Inr (case x of PList items \<Rightarrow> map stub_embed_one items | _ \<Rightarrow> [stub_embed_one x]))\<rparr>"

fun added_ids :: "event list \<Rightarrow> string list" where
  "added_ids [] = []"
| "added_ids (VSAdd embeddings ids # h) = ids @ added_ids h"
| "added_ids (_ # h) = added_ids h"

definition stub_vector_store :: BaseVectorStore where
  "stub_vector_store =
     \<lparr>vs_add = (\<lambda>h embeddings ids. Inr ()),
      vs_query = (\<lambda>h emb k. Inr (map (\<lambda>i. PNone) (take (nat k) (added_ids h)),
                                  map (\<lambda>i. real (length i)) (take (nat k) (added_ids h)),
                                  take (nat k) (added_ids h))),
      vs_save = (\<lambda>h p. Inr ()),
      vs_load = (\<lambda>h p. Inr ())\<rparr>"

fun added_documents :: "event list \<Rightarrow> Document list" where
  "added_documents [] = []"
| "added_documents (DSAdd docs # h) = docs @ added_documents h"
| "added_documents (_ # h) = added_documents h"

definition stub_document_store :: BaseDocumentStore where
  "stub_document_store =
     \<lparr>ds_truth = (\<lambda>h. True),
      ds_add = (\<lambda>h docs. Inr ()),
      ds_get = (\<lambda>h ids. Inr (List.map_filter (\<lambda>i. find (\<lambda>d. doc_id d = i) (added_documents h)) ids)),
      ds_save = (\<lambda>h p. Inr ()),
      ds_load = (\<lambda>h p. Inr ())\<rparr>"


definition reversing_reranker :: BaseReranking where
  "reversing_reranker = \<lparr>rr_name = ''reverse'', rerank = (\<lambda>h documents query. Inr (rev documents))\<rparr>"

definition first_only_reranker :: BaseReranking where
  "first_only_reranker = \<lparr>rr_name = ''first'', rerank = (\<lambda>h documents query. Inr (take 1 documents))\<rparr>"

definition stub_cohere :: cohere_package where
  "stub_cohere =
     \<lparr>importable = True,
      Client = (\<lambda>h key. Inr ()),
      client_rerank = (\<lambda>h model query docs top_n.
        Inr (map (\<lambda>i. \<lparr>index = int i, relevance_score = real i / 2\<rparr>) (take (nat top_n) (rev [0..<length docs]))))\<rparr>"

definition doc_a :: Document where
  "doc_a = \<lparr>doc_id = ''a'', content = ''cat'', metadata = Map.empty\<rparr>"

definition doc_b :: Document where
  "doc_b = \<lparr>doc_id = ''bb'', content = ''dog'', metadata = Map.empty(''lang'' \<mapsto> MStr ''en'')\<rparr>"

text \<open>A generator that never yields the same string twice: the n-th draw is n letters long.\<close>

definition stub_uuids :: "nat \<Rightarrow> string" where
  "stub_uuids n = replicate (Suc n) CHR ''u''"

definition empty_world :: world where
  "empty_world = \<lparr>calls = [], uuid_seq = stub_uuids, uuid_count = 0\<rparr>"

text \<open>A state in which both Documents are in the vector store but only the second in the document store.\<close>

definition lopsided_world :: world where
  "lopsided_world =
     \<lparr>calls = [VSAdd (map stub_embed_one [PDoc doc_a, PDoc doc_b]) [''a'', ''bb''], DSAdd [doc_b]],
      uuid_seq = stub_uuids, uuid_count = 0\<rparr>"

text \<open>A state in which both Documents have been indexed, in both stores.\<close>

definition indexed_world :: world where
  "indexed_world =
     \<lparr>calls = [VSAdd (map stub_embed_one [PDoc doc_a, PDoc doc_b]) [''a'', ''bb''], DSAdd [doc_a, doc_b]],
      uuid_seq = stub_uuids, uuid_count = 0\<rparr>"

text \<open>A Cohere reranker with the defaults of the class, and a state that holds two retrieved Documents as objects.\<close>

definition stub_reranking :: CohereReranking where
  "stub_reranking = \<lparr>model_name = ''rerank-multilingual-v2.0'', cohere_api_key = ''key'', CohereReranking.top_k = 1\<rparr>"

definition object_world :: "RetrievedDocument objworld" where
  "object_world =
     \<lparr>calls = [], uuid_seq = stub_uuids, uuid_count = 0,
      heap = (\<lambda>a. new_RetrievedDocument doc_a 1)(1 := new_RetrievedDocument doc_b 2)\<rparr>"

definition stub_indexing :: VectorIndexing where
  "stub_indexing =
     \<lparr>VectorIndexing.vector_store = stub_vector_store, VectorIndexing.doc_store = Some stub_document_store,
      VectorIndexing.embedding = stub_embeddings\<rparr>"

definition stub_pipeline :: IndexVectorStoreFromDocumentPipeline where
  "stub_pipeline =
     \<lparr>IndexVectorStoreFromDocumentPipeline.vector_store = stub_vector_store,
      IndexVectorStoreFromDocumentPipeline.doc_store = Given (Some stub_document_store),
      IndexVectorStoreFromDocumentPipeline.embedding = stub_embeddings\<rparr>"

definition stub_retrieval :: "BaseReranking list \<Rightarrow> VectorRetrieval" where
  "stub_retrieval rs =
     \<lparr>VectorRetrieval.vector_store = stub_vector_store, VectorRetrieval.doc_store = Some stub_document_store,
      VectorRetrieval.embedding = stub_embeddings, rerankers = rs, VectorRetrieval.top_k = 1\<rparr>"

section \<open>Running a computation\<close>

lemma andThen_Inr: "m s = (Inr x, s') \<Longrightarrow> andThen m f s = f x s'"
  by (simp add: andThen_def)

lemma andThen_Inl: "m s = (Inl e, s') \<Longrightarrow> andThen m f s = (Inl e, s')"
  by (simp add: andThen_def)

section \<open>Retrieval without a document store\<close>

text \<open>
  Claim C4. A retrieval call on a pipeline whose \<open>doc_store\<close> is \<open>None\<close> raises the
  \<^verbatim>\<open>ValueError\<close> of the configuration check (the spec's ConfigurationError), whatever the
  query and \<open>top_k\<close>; the state it returns is the state it was given, so the embedding model
  and the vector store have not been called.
\<close>

theorem retrieval_without_doc_store_fails:
  "VectorRetrieval.doc_store self = None \<Longrightarrow>
   VectorRetrieval_run self text top_k_arg w =
     (Inl (ValueError ''doc_store is not provided. Please provide a doc_store to retrieve the documents''), w)"
  by (simp add: VectorRetrieval_run_def raise_def)

theorem retrieval_without_doc_store_fails_witness:
  "VectorRetrieval.doc_store ((stub_retrieval [reversing_reranker])\<lparr>VectorRetrieval.doc_store := None\<rparr>) = None \<and>
   VectorRetrieval_run ((stub_retrieval [reversing_reranker])\<lparr>VectorRetrieval.doc_store := None\<rparr>)
       (PStr ''cat'') (Some 3) lopsided_world =
     (Inl (ValueError ''doc_store is not provided. Please provide a doc_store to retrieve the documents''),
      lopsided_world)"
  using retrieval_without_doc_store_fails
    [of "(stub_retrieval [reversing_reranker])\<lparr>VectorRetrieval.doc_store := None\<rparr>" "PStr ''cat''" "Some 3" lopsided_world]
  by simp

section \<open>Indexing a batch\<close>







section \<open>The steps of a retrieval call\<close>

text \<open>
  When a document store is configured and the embedding model, the vector store and the
  document store answer without raising, a retrieval call has made exactly three calls
  by the time it reaches its rerankers: one embedding of the query, one vector store
  query with the effective \<open>top_k\<close>, one document store fetch of the ids that came back.
\<close>

lemma retrieval_steps:
  assumes "VectorRetrieval.doc_store self = Some ds"
      and "embed (VectorRetrieval.embedding self) (calls w) text = Inr (e # es)"
      and "vs_query (VectorRetrieval.vector_store self) (calls w @ [Embed text])
             (DocumentWithEmbedding.embedding e) k = Inr (payloads, scores, ids)"
      and "ds_get ds (calls w @ [Embed text, VSQuery (DocumentWithEmbedding.embedding e) k]) ids = Inr docs"
      and "k = (case top_k_arg of None \<Rightarrow> VectorRetrieval.top_k self | Some k' \<Rightarrow> k')"
  shows "VectorRetrieval_run self text top_k_arg w =
           rerank_loop (rerankers self) (map (\<lambda>(doc, score). new_RetrievedDocument doc score) (zip docs scores)) text
             (w\<lparr>calls := calls w @ [Embed text, VSQuery (DocumentWithEmbedding.embedding e) k, DSGet ids]\<rparr>)"
  using assms
  by (simp add: VectorRetrieval_run_def andThen_def call_embedding_def query_vectors_def get_documents_def
        extcall_def Let_def)

lemma rerank_loop_extends:
  "\<exists>more. calls (snd (rerank_loop rs result text w)) = calls w @ more"
proof (induction rs arbitrary: result w)
  case Nil
  then show ?case by (simp add: ret_def)
next
  case (Cons r rs)
  show ?case
  proof (cases "rerank r (calls w) result text")
    case (Inl err)
    then show ?thesis
      by (simp add: andThen_def call_reranker_def extcall_def)
  next
    case (Inr result')
    from Cons.IH [of result' "w\<lparr>calls := calls w @ [Rerank (rr_name r) result text]\<rparr>"]
    obtain more where
      "calls (snd (rerank_loop rs result' text (w\<lparr>calls := calls w @ [Rerank (rr_name r) result text]\<rparr>))) =
         calls w @ Rerank (rr_name r) result text # more"
      by auto
    with Inr show ?thesis
      by (simp add: andThen_def call_reranker_def extcall_def)
  qed
qed

lemma rerank_loop_empty:
  "(\<forall>r\<in>set rs. \<forall>h. rerank r h [] text = Inr []) \<Longrightarrow>
   rerank_loop rs [] text w = (Inr [], w\<lparr>calls := calls w @ map (\<lambda>r. Rerank (rr_name r) [] text) rs\<rparr>)"
  by (induction rs arbitrary: w) (simp_all add: ret_def andThen_def call_reranker_def extcall_def)

section \<open>Fewer documents than ids\<close>

text \<open>
  Claim C8. Whatever number of Documents the document store returns for the ids it is
  asked for, in particular fewer than the ids, the pipeline raises nothing on that
  account: the candidate list is the positional zip of the returned Documents with the
  scores, as long as the shorter of the two, its i-th entry being the i-th returned
  Document with the i-th score. That list goes to the rerankers, and is the result of the
  call when there are none.
\<close>

theorem short_fetch_truncates_by_position:
  assumes "VectorRetrieval.doc_store self = Some ds"
      and "embed (VectorRetrieval.embedding self) (calls w) text = Inr (e # es)"
      and "vs_query (VectorRetrieval.vector_store self) (calls w @ [Embed text])
             (DocumentWithEmbedding.embedding e) k = Inr (payloads, scores, ids)"
      and "ds_get ds (calls w @ [Embed text, VSQuery (DocumentWithEmbedding.embedding e) k]) ids = Inr docs"
      and "k = (case top_k_arg of None \<Rightarrow> VectorRetrieval.top_k self | Some k' \<Rightarrow> k')"
  shows "(\<exists>result. length result = min (length docs) (length scores)
            \<and> (\<forall>i < length result. result ! i = new_RetrievedDocument (docs ! i) (scores ! i))
            \<and> VectorRetrieval_run self text top_k_arg w =
                rerank_loop (rerankers self) result text
                  (w\<lparr>calls := calls w @ [Embed text, VSQuery (DocumentWithEmbedding.embedding e) k, DSGet ids]\<rparr>)
            \<and> (rerankers self = [] \<longrightarrow>
                VectorRetrieval_run self text top_k_arg w =
                  (Inr result,
                   w\<lparr>calls := calls w @ [Embed text, VSQuery (DocumentWithEmbedding.embedding e) k, DSGet ids]\<rparr>)))"
proof -
  let ?result = "map (\<lambda>(doc, score). new_RetrievedDocument doc score) (zip docs scores)"
  have "length ?result = min (length docs) (length scores)"
    by simp
  moreover have "\<forall>i < length ?result. ?result ! i = new_RetrievedDocument (docs ! i) (scores ! i)"
    by simp
  moreover note run = retrieval_steps [OF assms(1-5)]
  moreover have "rerankers self = [] \<longrightarrow>
      VectorRetrieval_run self text top_k_arg w =
        (Inr ?result, w\<lparr>calls := calls w @ [Embed text, VSQuery (DocumentWithEmbedding.embedding e) k, DSGet ids]\<rparr>)"
    using run by (simp add: ret_def)
  ultimately show ?thesis
    by blast
qed

theorem short_fetch_truncates_by_position_witness:
  "VectorRetrieval_run (stub_retrieval []) (PStr ''cat'') (Some 2) lopsided_world =
     (Inr [new_RetrievedDocument doc_b 1],
      lopsided_world\<lparr>calls := calls lopsided_world @ [Embed (PStr ''cat''), VSQuery [3, 1] 2, DSGet [''a'', ''bb'']]\<rparr>)"
proof -
  let ?self = "stub_retrieval []"
  let ?w = lopsided_world
  have h1: "VectorRetrieval.doc_store ?self = Some stub_document_store"
    by (simp add: stub_retrieval_def)
  have h2: "embed (VectorRetrieval.embedding ?self) (calls ?w) (PStr ''cat'') = Inr (stub_embed_one (PStr ''cat'') # [])"
    by (simp add: stub_retrieval_def stub_embeddings_def)
  have h3: "vs_query (VectorRetrieval.vector_store ?self) (calls ?w @ [Embed (PStr ''cat'')])
      (DocumentWithEmbedding.embedding (stub_embed_one (PStr ''cat''))) 2 = Inr ([PNone, PNone], [1, 2], [''a'', ''bb''])"
    by (simp add: stub_retrieval_def stub_vector_store_def lopsided_world_def)
  have h4: "ds_get stub_document_store
      (calls ?w @ [Embed (PStr ''cat''), VSQuery (DocumentWithEmbedding.embedding (stub_embed_one (PStr ''cat''))) 2])
      [''a'', ''bb''] = Inr [doc_b]"
    by (simp add: stub_document_store_def lopsided_world_def List.map_filter_def doc_b_def)
  have h5: "(2::int) = (case Some 2 of None \<Rightarrow> VectorRetrieval.top_k ?self | Some k' \<Rightarrow> k')"
    by simp
  from short_fetch_truncates_by_position [OF h1 h2 h3 h4 h5]
  obtain result where
    "length result = min (length [doc_b]) (length [1::real, 2])"
    "\<forall>i < length result. result ! i = new_RetrievedDocument ([doc_b] ! i) ([1, 2] ! i)"
    "rerankers ?self = [] \<longrightarrow> VectorRetrieval_run ?self (PStr ''cat'') (Some 2) ?w =
       (Inr result, ?w\<lparr>calls := calls ?w @ [Embed (PStr ''cat''),
          VSQuery (DocumentWithEmbedding.embedding (stub_embed_one (PStr ''cat''))) 2, DSGet [''a'', ''bb'']]\<rparr>)"
    by blast
  moreover from this have "result = [new_RetrievedDocument doc_b 1]"
    by (cases result) simp_all
  ultimately show ?thesis
    by (simp add: stub_retrieval_def)
qed

section \<open>Chained rerankers\<close>

text \<open>
  Claim C5. With the rerankers \<open>R1\<close> then \<open>R2\<close> configured, the call is the call of \<open>R1\<close> on
  the initial candidate list and the query, followed by the call of \<open>R2\<close> on what \<open>R1\<close>
  returned and the same query; when both return, the result of the retrieval is what
  \<open>R2\<close> returned, and the two calls were made in that order with those inputs.
\<close>

theorem rerankers_chain_left_to_right:
  assumes "VectorRetrieval.doc_store self = Some ds"
      and "embed (VectorRetrieval.embedding self) (calls w) text = Inr (e # es)"
      and "vs_query (VectorRetrieval.vector_store self) (calls w @ [Embed text])
             (DocumentWithEmbedding.embedding e) k = Inr (payloads, scores, ids)"
      and "ds_get ds (calls w @ [Embed text, VSQuery (DocumentWithEmbedding.embedding e) k]) ids = Inr docs"
      and "k = (case top_k_arg of None \<Rightarrow> VectorRetrieval.top_k self | Some k' \<Rightarrow> k')"
      and "rerankers self = [R1, R2]"
      and "initial = map (\<lambda>(doc, score). new_RetrievedDocument doc score) (zip docs scores)"
      and "fetched = calls w @ [Embed text, VSQuery (DocumentWithEmbedding.embedding e) k, DSGet ids]"
  shows "VectorRetrieval_run self text top_k_arg w =
           andThen (call_reranker R1 initial text) (\<lambda>ranked. call_reranker R2 ranked text) (w\<lparr>calls := fetched\<rparr>)
       \<and> (\<forall>out1 out2.
            rerank R1 fetched initial text = Inr out1 \<and>
            rerank R2 (fetched @ [Rerank (rr_name R1) initial text]) out1 text = Inr out2 \<longrightarrow>
            VectorRetrieval_run self text top_k_arg w =
              (Inr out2, w\<lparr>calls := fetched @ [Rerank (rr_name R1) initial text, Rerank (rr_name R2) out1 text]\<rparr>))"
proof -
  have run: "VectorRetrieval_run self text top_k_arg w = rerank_loop [R1, R2] initial text (w\<lparr>calls := fetched\<rparr>)"
    using retrieval_steps [OF assms(1-5)] assms(6-8) by simp
  have chain: "rerank_loop [R1, R2] initial text (w\<lparr>calls := fetched\<rparr>) =
      andThen (call_reranker R1 initial text) (\<lambda>ranked. call_reranker R2 ranked text) (w\<lparr>calls := fetched\<rparr>)"
    by (simp add: andThen_def ret_def split: prod.splits sum.splits)
  show ?thesis
    unfolding run chain
    by (auto simp: andThen_def call_reranker_def extcall_def)
qed

theorem rerankers_chain_left_to_right_witness:
  "VectorRetrieval_run (stub_retrieval [reversing_reranker, first_only_reranker]) (PStr ''cat'') (Some 2) indexed_world =
     (Inr [new_RetrievedDocument doc_b 2],
      indexed_world\<lparr>calls := calls indexed_world @
        [Embed (PStr ''cat''), VSQuery [3, 1] 2, DSGet [''a'', ''bb''],
         Rerank ''reverse'' [new_RetrievedDocument doc_a 1, new_RetrievedDocument doc_b 2] (PStr ''cat''),
         Rerank ''first'' [new_RetrievedDocument doc_b 2, new_RetrievedDocument doc_a 1] (PStr ''cat'')]\<rparr>)"
proof -
  let ?self = "stub_retrieval [reversing_reranker, first_only_reranker]"
  let ?w = indexed_world
  let ?fetched = "calls ?w @ [Embed (PStr ''cat''),
    VSQuery (DocumentWithEmbedding.embedding (stub_embed_one (PStr ''cat''))) 2, DSGet [''a'', ''bb'']]"
  let ?initial = "map (\<lambda>(doc, score). new_RetrievedDocument doc score) (zip [doc_a, doc_b] [1, 2])"
  have h1: "VectorRetrieval.doc_store ?self = Some stub_document_store"
    by (simp add: stub_retrieval_def)
  have h2: "embed (VectorRetrieval.embedding ?self) (calls ?w) (PStr ''cat'') = Inr (stub_embed_one (PStr ''cat'') # [])"
    by (simp add: stub_retrieval_def stub_embeddings_def)
  have h3: "vs_query (VectorRetrieval.vector_store ?self) (calls ?w @ [Embed (PStr ''cat'')])
      (DocumentWithEmbedding.embedding (stub_embed_one (PStr ''cat''))) 2 = Inr ([PNone, PNone], [1, 2], [''a'', ''bb''])"
    by (simp add: stub_retrieval_def stub_vector_store_def indexed_world_def)
  have h4: "ds_get stub_document_store
      (calls ?w @ [Embed (PStr ''cat''), VSQuery (DocumentWithEmbedding.embedding (stub_embed_one (PStr ''cat''))) 2])
      [''a'', ''bb''] = Inr [doc_a, doc_b]"
    by (simp add: stub_document_store_def indexed_world_def List.map_filter_def doc_a_def doc_b_def)
  have h5: "(2::int) = (case Some 2 of None \<Rightarrow> VectorRetrieval.top_k ?self | Some k' \<Rightarrow> k')"
    by simp
  have h6: "rerankers ?self = [reversing_reranker, first_only_reranker]"
    by (simp add: stub_retrieval_def)
  have r1: "rerank reversing_reranker ?fetched ?initial (PStr ''cat'') = Inr (rev ?initial)"
    by (simp add: reversing_reranker_def)
  have r2: "rerank first_only_reranker (?fetched @ [Rerank (rr_name reversing_reranker) ?initial (PStr ''cat'')])
      (rev ?initial) (PStr ''cat'') = Inr (take 1 (rev ?initial))"
    by (simp add: first_only_reranker_def)
  from rerankers_chain_left_to_right [OF h1 h2 h3 h4 h5 h6 refl refl, THEN conjunct2, rule_format, OF conjI, OF r1 r2]
  show ?thesis
    by (simp add: reversing_reranker_def first_only_reranker_def)
qed

section \<open>No candidates\<close>

text \<open>
  As stated, claim C2 does not hold. On an empty vector store the query returns no id;
  the pipeline then fetches the empty id list from the document store and calls its
  reranker with the empty candidate list.
\<close>

theorem no_candidates_counterexample:
  "vs_query (VectorRetrieval.vector_store (stub_retrieval [reversing_reranker])) [Embed (PStr ''cat'')] [3, 1] 1
      = Inr ([], [], [])
   \<and> VectorRetrieval_run (stub_retrieval [reversing_reranker]) (PStr ''cat'') None empty_world =
       (Inr [], empty_world\<lparr>calls :=
          [Embed (PStr ''cat''), VSQuery [3, 1] 1, DSGet [], Rerank ''reverse'' [] (PStr ''cat'')]\<rparr>)"
  by (simp add: VectorRetrieval_run_def stub_retrieval_def stub_vector_store_def stub_document_store_def
        stub_embeddings_def reversing_reranker_def empty_world_def andThen_def ret_def call_embedding_def
        query_vectors_def get_documents_def call_reranker_def extcall_def List.map_filter_def)

text \<open>
  Claim C2, amended. When the vector store returns no candidate (no id and no score), the
  pipeline still calls the document store's \<^verbatim>\<open>get\<close> once, with the empty id list, and then
  runs every configured reranker in order, starting from the empty candidate list; the
  call returns what the last reranker returns. It returns the empty sequence without
  error when no reranker is configured, and also when every configured reranker returns
  the empty list on the empty list, each of them having been called once.
\<close>

theorem no_candidates_still_fetches_and_reranks:
  assumes "VectorRetrieval.doc_store self = Some ds"
      and "embed (VectorRetrieval.embedding self) (calls w) text = Inr (e # es)"
      and "vs_query (VectorRetrieval.vector_store self) (calls w @ [Embed text])
             (DocumentWithEmbedding.embedding e) k = Inr (payloads, [], [])"
      and "ds_get ds (calls w @ [Embed text, VSQuery (DocumentWithEmbedding.embedding e) k]) [] = Inr docs"
      and "k = (case top_k_arg of None \<Rightarrow> VectorRetrieval.top_k self | Some k' \<Rightarrow> k')"
      and "fetched = calls w @ [Embed text, VSQuery (DocumentWithEmbedding.embedding e) k, DSGet []]"
  shows "VectorRetrieval_run self text top_k_arg w = rerank_loop (rerankers self) [] text (w\<lparr>calls := fetched\<rparr>)
       \<and> (rerankers self = [] \<longrightarrow> VectorRetrieval_run self text top_k_arg w = (Inr [], w\<lparr>calls := fetched\<rparr>))
       \<and> ((\<forall>r \<in> set (rerankers self). \<forall>h. rerank r h [] text = Inr []) \<longrightarrow>
            VectorRetrieval_run self text top_k_arg w =
              (Inr [], w\<lparr>calls := fetched @ map (\<lambda>r. Rerank (rr_name r) [] text) (rerankers self)\<rparr>))"
proof -
  have run: "VectorRetrieval_run self text top_k_arg w = rerank_loop (rerankers self) [] text (w\<lparr>calls := fetched\<rparr>)"
    using retrieval_steps [OF assms(1-5)] assms(6) by simp
  have none: "rerankers self = [] \<longrightarrow> VectorRetrieval_run self text top_k_arg w = (Inr [], w\<lparr>calls := fetched\<rparr>)"
    using run by (simp add: ret_def)
  have quiet: "(\<forall>r \<in> set (rerankers self). \<forall>h. rerank r h [] text = Inr []) \<longrightarrow>
      VectorRetrieval_run self text top_k_arg w =
        (Inr [], w\<lparr>calls := fetched @ map (\<lambda>r. Rerank (rr_name r) [] text) (rerankers self)\<rparr>)"
    using run rerank_loop_empty [of "rerankers self" "text" "w\<lparr>calls := fetched\<rparr>"] by simp
  from run none quiet show ?thesis
    by blast
qed

theorem no_candidates_still_fetches_and_reranks_witness:
  "VectorRetrieval_run (stub_retrieval [reversing_reranker, first_only_reranker]) (PStr ''cat'') None empty_world =
     (Inr [], empty_world\<lparr>calls :=
        [Embed (PStr ''cat''), VSQuery [3, 1] 1, DSGet [],
         Rerank ''reverse'' [] (PStr ''cat''), Rerank ''first'' [] (PStr ''cat'')]\<rparr>)"
proof -
  let ?self = "stub_retrieval [reversing_reranker, first_only_reranker]"
  let ?w = empty_world
  have h1: "VectorRetrieval.doc_store ?self = Some stub_document_store"
    by (simp add: stub_retrieval_def)
  have h2: "embed (VectorRetrieval.embedding ?self) (calls ?w) (PStr ''cat'') = Inr (stub_embed_one (PStr ''cat'') # [])"
    by (simp add: stub_retrieval_def stub_embeddings_def)
  have h3: "vs_query (VectorRetrieval.vector_store ?self) (calls ?w @ [Embed (PStr ''cat'')])
      (DocumentWithEmbedding.embedding (stub_embed_one (PStr ''cat''))) 1 = Inr ([], [], [])"
    by (simp add: stub_retrieval_def stub_vector_store_def empty_world_def)
  have h4: "ds_get stub_document_store
      (calls ?w @ [Embed (PStr ''cat''), VSQuery (DocumentWithEmbedding.embedding (stub_embed_one (PStr ''cat''))) 1])
      [] = Inr []"
    by (simp add: stub_document_store_def List.map_filter_def)
  have h5: "(1::int) = (case None of None \<Rightarrow> VectorRetrieval.top_k ?self | Some k' \<Rightarrow> k')"
    by (simp add: stub_retrieval_def)
  have quiet: "\<forall>r \<in> set (rerankers ?self). \<forall>h. rerank r h [] (PStr ''cat'') = Inr []"
    by (simp add: stub_retrieval_def reversing_reranker_def first_only_reranker_def)
  from no_candidates_still_fetches_and_reranks [OF h1 h2 h3 h4 h5 refl, THEN conjunct2, THEN conjunct2, THEN mp, OF quiet]
  show ?thesis
    by (simp add: stub_retrieval_def reversing_reranker_def first_only_reranker_def empty_world_def)
qed

section \<open>The effective top_k\<close>

text \<open>
  As stated, claim C3 does not hold: with \<open>top_k = 0\<close>, and with a pipeline-level
  \<open>top_k = -1\<close>, the call does not fail; the value reaches the vector store.
\<close>

theorem non_positive_top_k_counterexample:
  "VectorRetrieval_run (stub_retrieval []) (PStr ''cat'') (Some 0) indexed_world =
     (Inr [], indexed_world\<lparr>calls := calls indexed_world @ [Embed (PStr ''cat''), VSQuery [3, 1] 0, DSGet []]\<rparr>)
   \<and> VectorRetrieval_run ((stub_retrieval [])\<lparr>VectorRetrieval.top_k := - 1\<rparr>) (PStr ''cat'') None indexed_world =
     (Inr [], indexed_world\<lparr>calls := calls indexed_world @ [Embed (PStr ''cat''), VSQuery [3, 1] (- 1), DSGet []]\<rparr>)"
  by (simp add: VectorRetrieval_run_def stub_retrieval_def stub_vector_store_def stub_document_store_def
        stub_embeddings_def andThen_def ret_def call_embedding_def
        query_vectors_def get_documents_def extcall_def List.map_filter_def)

text \<open>
  Claim C3, amended. When \<open>top_k\<close> is not supplied it defaults to the pipeline-level
  value. The effective \<open>top_k\<close> is not validated: whatever integer it is, once the document
  store check and the embedding of the query have passed, the vector store is queried
  with it unchanged, and when the collaborators answer the call returns normally.
\<close>

theorem top_k_defaults_and_is_passed_on:
  assumes "VectorRetrieval.doc_store self = Some ds"
      and "embed (VectorRetrieval.embedding self) (calls w) text = Inr (e # es)"
      and "k = (case top_k_arg of None \<Rightarrow> VectorRetrieval.top_k self | Some k' \<Rightarrow> k')"
  shows "VectorRetrieval_run self text None w = VectorRetrieval_run self text (Some (VectorRetrieval.top_k self)) w
       \<and> take 2 (drop (length (calls w)) (calls (snd (VectorRetrieval_run self text top_k_arg w)))) =
           [Embed text, VSQuery (DocumentWithEmbedding.embedding e) k]
       \<and> (\<forall>payloads scores ids docs.
            vs_query (VectorRetrieval.vector_store self) (calls w @ [Embed text])
              (DocumentWithEmbedding.embedding e) k = Inr (payloads, scores, ids) \<and>
            ds_get ds (calls w @ [Embed text, VSQuery (DocumentWithEmbedding.embedding e) k]) ids = Inr docs \<and>
            rerankers self = [] \<longrightarrow>
            VectorRetrieval_run self text top_k_arg w =
              (Inr (map (\<lambda>(doc, score). new_RetrievedDocument doc score) (zip docs scores)),
               w\<lparr>calls := calls w @ [Embed text, VSQuery (DocumentWithEmbedding.embedding e) k, DSGet ids]\<rparr>))"
proof (intro conjI allI impI)
  show "VectorRetrieval_run self text None w = VectorRetrieval_run self text (Some (VectorRetrieval.top_k self)) w"
    by (simp add: VectorRetrieval_run_def)
next
  let ?emb = "DocumentWithEmbedding.embedding e"
  show "take 2 (drop (length (calls w)) (calls (snd (VectorRetrieval_run self text top_k_arg w)))) =
      [Embed text, VSQuery ?emb k]"
  proof (cases "vs_query (VectorRetrieval.vector_store self) (calls w @ [Embed text]) ?emb k")
    case (Inl err)
    with assms show ?thesis
      by (simp add: VectorRetrieval_run_def andThen_def call_embedding_def query_vectors_def extcall_def Let_def)
  next
    case (Inr answer)
    obtain payloads scores ids where answer: "answer = (payloads, scores, ids)"
      by (cases answer) auto
    show ?thesis
    proof (cases "ds_get ds (calls w @ [Embed text, VSQuery ?emb k]) ids")
      case (Inl err)
      with assms Inr answer show ?thesis
        by (simp add: VectorRetrieval_run_def andThen_def call_embedding_def query_vectors_def
              get_documents_def extcall_def Let_def)
    next
      case inner: (Inr docs)
      from Inr answer have q: "vs_query (VectorRetrieval.vector_store self) (calls w @ [Embed text]) ?emb k
          = Inr (payloads, scores, ids)"
        by simp
      note run = retrieval_steps [OF assms(1) assms(2) q inner assms(3)]
      obtain more where
        "calls (snd (VectorRetrieval_run self text top_k_arg w)) =
           calls w @ [Embed text, VSQuery ?emb k, DSGet ids] @ more"
        using rerank_loop_extends
          [of "rerankers self" "map (\<lambda>(doc, score). new_RetrievedDocument doc score) (zip docs scores)" "text"
              "w\<lparr>calls := calls w @ [Embed text, VSQuery ?emb k, DSGet ids]\<rparr>"]
        unfolding run by auto
      then show ?thesis
        by simp
    qed
  qed
next
  fix payloads scores ids docs
  assume "vs_query (VectorRetrieval.vector_store self) (calls w @ [Embed text])
              (DocumentWithEmbedding.embedding e) k = Inr (payloads, scores, ids) \<and>
            ds_get ds (calls w @ [Embed text, VSQuery (DocumentWithEmbedding.embedding e) k]) ids = Inr docs \<and>
            rerankers self = []"
  then show "VectorRetrieval_run self text top_k_arg w =
              (Inr (map (\<lambda>(doc, score). new_RetrievedDocument doc score) (zip docs scores)),
               w\<lparr>calls := calls w @ [Embed text, VSQuery (DocumentWithEmbedding.embedding e) k, DSGet ids]\<rparr>)"
    using retrieval_steps [OF assms(1) assms(2) _ _ assms(3), of payloads scores ids docs]
    by (simp add: ret_def)
qed

theorem top_k_defaults_and_is_passed_on_witness:
  "VectorRetrieval_run (stub_retrieval []) (PStr ''cat'') None indexed_world =
     VectorRetrieval_run (stub_retrieval []) (PStr ''cat'') (Some 1) indexed_world
   \<and> take 2 (drop 2 (calls (snd (VectorRetrieval_run (stub_retrieval []) (PStr ''cat'') (Some (- 3)) indexed_world)))) =
       [Embed (PStr ''cat''), VSQuery [3, 1] (- 3)]"
proof -
  let ?self = "stub_retrieval []"
  let ?w = indexed_world
  have h1: "VectorRetrieval.doc_store ?self = Some stub_document_store"
    by (simp add: stub_retrieval_def)
  have h2: "embed (VectorRetrieval.embedding ?self) (calls ?w) (PStr ''cat'') = Inr (stub_embed_one (PStr ''cat'') # [])"
    by (simp add: stub_retrieval_def stub_embeddings_def)
  have h3: "(- 3::int) = (case Some (- 3) of None \<Rightarrow> VectorRetrieval.top_k ?self | Some k' \<Rightarrow> k')"
    by simp
  have len: "length (calls ?w) = 2"
    by (simp add: indexed_world_def)
  from top_k_defaults_and_is_passed_on [OF h1 h2 h3] len
  show ?thesis
    by (simp add: stub_retrieval_def)
qed

section \<open>Normalising the input of an indexing call\<close>

lemma collect_input_rejects:
  "find (\<lambda>item. \<not> isinstance_str item \<and> \<not> isinstance_Document item) items = Some bad \<Longrightarrow>
   fst (collect_input items acc w) =
     Inl (ValueError (''Invalid input type '' @ type_repr bad @ '', should be str or Document''))
   \<and> calls (snd (collect_input items acc w)) = calls w"
  by (induction items acc arbitrary: w rule: collect_input.induct)
     (auto simp: raise_def andThen_def uuid4_def)

lemma collect_input_accepts:
  "list_all (\<lambda>item. isinstance_str item \<or> isinstance_Document item) items \<Longrightarrow>
   \<exists>input. collect_input items acc w =
       (Inr (acc @ input), w\<lparr>uuid_count := uuid_count w + length (filter isinstance_str items)\<rparr>)
     \<and> length input = length items
     \<and> (\<forall>i<length items. \<forall>s. items ! i = PStr s \<longrightarrow>
           input ! i = new_Document s (uuid_seq w (uuid_count w + length (filter isinstance_str (take i items)))))
     \<and> (\<forall>i<length items. \<forall>d. items ! i = PDoc d \<longrightarrow> input ! i = d)"
proof (induction items arbitrary: acc w)
  case Nil
  then show ?case by (simp add: ret_def)
next
  case (Cons item items)
  then have rest: "list_all (\<lambda>item. isinstance_str item \<or> isinstance_Document item) items"
    by simp
  show ?case
  proof (cases item)
    case (PStr s)
    let ?new = "new_Document s (uuid_seq w (uuid_count w))"
    let ?w1 = "w\<lparr>uuid_count := Suc (uuid_count w)\<rparr>"
    from Cons.IH [OF rest, of "acc @ [?new]" ?w1]
    obtain input where
      run: "collect_input items (acc @ [?new]) ?w1 =
          (Inr ((acc @ [?new]) @ input), ?w1\<lparr>uuid_count := uuid_count ?w1 + length (filter isinstance_str items)\<rparr>)"
      and len: "length input = length items"
      and strs: "\<forall>i<length items. \<forall>s. items ! i = PStr s \<longrightarrow>
           input ! i = new_Document s (uuid_seq ?w1 (uuid_count ?w1 + length (filter isinstance_str (take i items))))"
      and docs: "\<forall>i<length items. \<forall>d. items ! i = PDoc d \<longrightarrow> input ! i = d"
      by blast
    have "collect_input (item # items) acc w =
        (Inr (acc @ ?new # input), w\<lparr>uuid_count := uuid_count w + length (filter isinstance_str (item # items))\<rparr>)"
      using run PStr by (simp add: andThen_def uuid4_def)
    moreover have "length (?new # input) = length (item # items)"
      using len by simp
    moreover have "\<forall>i<length (item # items). \<forall>t. (item # items) ! i = PStr t \<longrightarrow>
        (?new # input) ! i =
          new_Document t (uuid_seq w (uuid_count w + length (filter isinstance_str (take i (item # items)))))"
      using strs PStr by (auto simp: nth_Cons split: nat.splits)
    moreover have "\<forall>i<length (item # items). \<forall>d. (item # items) ! i = PDoc d \<longrightarrow> (?new # input) ! i = d"
      using docs PStr by (auto simp: nth_Cons split: nat.splits)
    ultimately show ?thesis
      by blast
  next
    case (PDoc d)
    from Cons.IH [OF rest, of "acc @ [d]" w]
    obtain input where
      run: "collect_input items (acc @ [d]) w =
          (Inr ((acc @ [d]) @ input), w\<lparr>uuid_count := uuid_count w + length (filter isinstance_str items)\<rparr>)"
      and len: "length input = length items"
      and strs: "\<forall>i<length items. \<forall>s. items ! i = PStr s \<longrightarrow>
           input ! i = new_Document s (uuid_seq w (uuid_count w + length (filter isinstance_str (take i items))))"
      and docs: "\<forall>i<length items. \<forall>d. items ! i = PDoc d \<longrightarrow> input ! i = d"
      by blast
    have "collect_input (item # items) acc w =
        (Inr (acc @ d # input), w\<lparr>uuid_count := uuid_count w + length (filter isinstance_str (item # items))\<rparr>)"
      using run PDoc by simp
    moreover have "length (d # input) = length (item # items)"
      using len by simp
    moreover have "\<forall>i<length (item # items). \<forall>t. (item # items) ! i = PStr t \<longrightarrow>
        (d # input) ! i =
          new_Document t (uuid_seq w (uuid_count w + length (filter isinstance_str (take i (item # items)))))"
      using strs PDoc by (auto simp: nth_Cons split: nat.splits)
    moreover have "\<forall>i<length (item # items). \<forall>e. (item # items) ! i = PDoc e \<longrightarrow> (d # input) ! i = e"
      using docs PDoc by (auto simp: nth_Cons split: nat.splits)
    ultimately show ?thesis
      by blast
  next
    case (PInt n)
    with Cons.prems show ?thesis by simp
  next
    case PNone
    with Cons.prems show ?thesis by simp
  next
    case (PList xs)
    with Cons.prems show ?thesis by simp
  qed
qed

lemma filter_take_grows:
  assumes "i < j" and "j \<le> length xs" and "P (xs ! i)"
  shows "length (filter P (take i xs)) < length (filter P (take j xs))"
proof -
  have "take j xs = take i xs @ xs ! i # take (j - Suc i) (drop (Suc i) xs)"
    using assms(1,2)
    by (metis Suc_leI add_diff_inverse_nat le_add_diff_inverse less_le_trans not_less
          take_Suc_conv_app_nth take_add append.assoc append_Cons append_Nil)
  with assms(3) show ?thesis
    by simp
qed

text \<open>
  Claim C7. When an item of the input list is neither a string nor a Document,
  \<^verbatim>\<open>VectorIndexing.run\<close> raises the \<^verbatim>\<open>ValueError\<close> that names the type of the first such
  item (the spec's InvalidInput), before any collaborator is called; an input that is not
  a list is treated as the list of that one item. When every item is a string or a
  Document, the batch the pipeline goes on with has one Document per item, in order: a
  Document item is there as it is, and a string item is a new Document with that text
  and the next identifier drawn from the generator, one draw per string. If the generator
  never repeats itself, these identifiers were never drawn before and differ from one
  another.
\<close>

theorem invalid_items_rejected_others_normalised:
  "(find (\<lambda>item. \<not> isinstance_str item \<and> \<not> isinstance_Document item) items = Some bad \<longrightarrow>
      fst (VectorIndexing_run self (PList items) w) =
        Inl (ValueError (''Invalid input type '' @ type_repr bad @ '', should be str or Document''))
      \<and> calls (snd (VectorIndexing_run self (PList items) w)) = calls w)
   \<and> (\<not> isinstance_list x \<longrightarrow> VectorIndexing_run self x w = VectorIndexing_run self (PList [x]) w)
   \<and> (list_all (\<lambda>item. isinstance_str item \<or> isinstance_Document item) items \<longrightarrow>
        (\<exists>input.
           collect_input items [] w =
             (Inr input, w\<lparr>uuid_count := uuid_count w + length (filter isinstance_str items)\<rparr>)
         \<and> VectorIndexing_run self (PList items) w =
             andThen (call_embedding (VectorIndexing.embedding self) (PList (map PDoc input))) (\<lambda>embeddings.
             andThen (add_vectors (VectorIndexing.vector_store self) embeddings (map doc_id input)) (\<lambda>_.
             doc_store_add_if_true (VectorIndexing.doc_store self) input))
               (w\<lparr>uuid_count := uuid_count w + length (filter isinstance_str items)\<rparr>)
         \<and> length input = length items
         \<and> (\<forall>i<length items. \<forall>s. items ! i = PStr s \<longrightarrow>
               input ! i = new_Document s (uuid_seq w (uuid_count w + length (filter isinstance_str (take i items)))))
         \<and> (\<forall>i<length items. \<forall>d. items ! i = PDoc d \<longrightarrow> input ! i = d)
         \<and> (inj (uuid_seq w) \<longrightarrow>
               (\<forall>i<length items. isinstance_str (items ! i) \<longrightarrow>
                  (\<forall>n<uuid_count w. doc_id (input ! i) \<noteq> uuid_seq w n)
                \<and> (\<forall>j<length items. i < j \<and> isinstance_str (items ! j) \<longrightarrow>
                      doc_id (input ! i) \<noteq> doc_id (input ! j))))))"
proof (intro conjI impI)
  assume bad: "find (\<lambda>item. \<not> isinstance_str item \<and> \<not> isinstance_Document item) items = Some bad"
  note rejected = collect_input_rejects [OF bad, of "[]" w]
  obtain err w' where stop: "collect_input items [] w = (Inl err, w')"
    using rejected by (cases "collect_input items [] w") (auto simp: isl_def)
  have run: "VectorIndexing_run self (PList items) w = (Inl err, w')"
    by (simp add: VectorIndexing_run_def andThen_Inl [of "collect_input items []" w err w', OF stop])
  show "fst (VectorIndexing_run self (PList items) w) =
      Inl (ValueError (''Invalid input type '' @ type_repr bad @ '', should be str or Document''))"
    using rejected stop run by simp
  show "calls (snd (VectorIndexing_run self (PList items) w)) = calls w"
    using rejected stop run by simp
next
  assume "\<not> isinstance_list x"
  then show "VectorIndexing_run self x w = VectorIndexing_run self (PList [x]) w"
    by (cases x) (simp_all add: VectorIndexing_run_def)
next
  assume ok: "list_all (\<lambda>item. isinstance_str item \<or> isinstance_Document item) items"
  let ?w' = "w\<lparr>uuid_count := uuid_count w + length (filter isinstance_str items)\<rparr>"
  from collect_input_accepts [OF ok, of "[]" w]
  obtain input where
    collected: "collect_input items [] w = (Inr input, ?w')"
    and len: "length input = length items"
    and strs: "\<forall>i<length items. \<forall>s. items ! i = PStr s \<longrightarrow>
         input ! i = new_Document s (uuid_seq w (uuid_count w + length (filter isinstance_str (take i items))))"
    and docs: "\<forall>i<length items. \<forall>d. items ! i = PDoc d \<longrightarrow> input ! i = d"
    by auto
  have run: "VectorIndexing_run self (PList items) w =
       andThen (call_embedding (VectorIndexing.embedding self) (PList (map PDoc input))) (\<lambda>embeddings.
       andThen (add_vectors (VectorIndexing.vector_store self) embeddings (map doc_id input)) (\<lambda>_.
       doc_store_add_if_true (VectorIndexing.doc_store self) input)) ?w'"
    by (simp add: VectorIndexing_run_def andThen_Inr [of "collect_input items []" w input ?w', OF collected])
  have id_of: "doc_id (input ! i) = uuid_seq w (uuid_count w + length (filter isinstance_str (take i items)))"
    if "i < length items" "isinstance_str (items ! i)" for i
  proof -
    from that(2) obtain s where "items ! i = PStr s"
      by (cases "items ! i") simp_all
    with strs that(1) show ?thesis
      by (simp add: new_Document_def)
  qed
  have fresh: "inj (uuid_seq w) \<longrightarrow>
       (\<forall>i<length items. isinstance_str (items ! i) \<longrightarrow>
          (\<forall>n<uuid_count w. doc_id (input ! i) \<noteq> uuid_seq w n)
        \<and> (\<forall>j<length items. i < j \<and> isinstance_str (items ! j) \<longrightarrow>
              doc_id (input ! i) \<noteq> doc_id (input ! j)))"
  proof (intro impI allI conjI)
    fix i n
    assume "inj (uuid_seq w)" "i < length items" "isinstance_str (items ! i)" "n < uuid_count w"
    then show "doc_id (input ! i) \<noteq> uuid_seq w n"
      by (auto simp: id_of dest: injD)
  next
    fix i j
    assume one: "inj (uuid_seq w)" and i: "i < length items" "isinstance_str (items ! i)"
      and j: "j < length items" "i < j \<and> isinstance_str (items ! j)"
    have "length (filter isinstance_str (take i items)) < length (filter isinstance_str (take j items))"
      using filter_take_grows [of i j items isinstance_str] i j by simp
    then show "doc_id (input ! i) \<noteq> doc_id (input ! j)"
      using one i j by (auto simp: id_of dest: injD)
  qed
  from collected run len strs docs fresh
  show "\<exists>input.
           collect_input items [] w = (Inr input, ?w')
         \<and> VectorIndexing_run self (PList items) w =
             andThen (call_embedding (VectorIndexing.embedding self) (PList (map PDoc input))) (\<lambda>embeddings.
             andThen (add_vectors (VectorIndexing.vector_store self) embeddings (map doc_id input)) (\<lambda>_.
             doc_store_add_if_true (VectorIndexing.doc_store self) input)) ?w'
         \<and> length input = length items
         \<and> (\<forall>i<length items. \<forall>s. items ! i = PStr s \<longrightarrow>
               input ! i = new_Document s (uuid_seq w (uuid_count w + length (filter isinstance_str (take i items)))))
         \<and> (\<forall>i<length items. \<forall>d. items ! i = PDoc d \<longrightarrow> input ! i = d)
         \<and> (inj (uuid_seq w) \<longrightarrow>
               (\<forall>i<length items. isinstance_str (items ! i) \<longrightarrow>
                  (\<forall>n<uuid_count w. doc_id (input ! i) \<noteq> uuid_seq w n)
                \<and> (\<forall>j<length items. i < j \<and> isinstance_str (items ! j) \<longrightarrow>
                      doc_id (input ! i) \<noteq> doc_id (input ! j))))"
    by blast
qed


theorem invalid_items_rejected_others_normalised_witness:
  "VectorIndexing_run stub_indexing (PList [PStr ''cat'', PInt 3, PDoc doc_b]) empty_world =
     (Inl (ValueError (''Invalid input type <class '' @ quoted ''int'' @ ''>, should be str or Document'')),
      empty_world\<lparr>uuid_count := 1\<rparr>)
   \<and> VectorIndexing_run stub_indexing (PInt 3) empty_world = VectorIndexing_run stub_indexing (PList [PInt 3]) empty_world
   \<and> collect_input [PStr ''cat'', PDoc doc_b, PStr ''dog''] [] empty_world =
       (Inr [new_Document ''cat'' ''u'', doc_b, new_Document ''dog'' ''uu''], empty_world\<lparr>uuid_count := 2\<rparr>)
   \<and> inj (uuid_seq empty_world)
   \<and> doc_id (new_Document ''cat'' ''u'') \<noteq> doc_id (new_Document ''dog'' ''uu'')"
proof -
  let ?bad = "[PStr ''cat'', PInt 3, PDoc doc_b]"
  let ?good = "[PStr ''cat'', PDoc doc_b, PStr ''dog'']"
  note T = invalid_items_rejected_others_normalised [of _ _ stub_indexing empty_world]
  have found: "find (\<lambda>item. \<not> isinstance_str item \<and> \<not> isinstance_Document item) ?bad = Some (PInt 3)"
    by simp
  from T [of ?bad "PInt 3", THEN conjunct1, THEN mp, OF found]
  have A: "fst (VectorIndexing_run stub_indexing (PList ?bad) empty_world) =
      Inl (ValueError (''Invalid input type <class '' @ quoted ''int'' @ ''>, should be str or Document''))"
    by simp
  have A': "snd (VectorIndexing_run stub_indexing (PList ?bad) empty_world) = empty_world\<lparr>uuid_count := 1\<rparr>"
    by (simp add: VectorIndexing_run_def andThen_def uuid4_def raise_def empty_world_def)
  have B: "VectorIndexing_run stub_indexing (PInt 3) empty_world = VectorIndexing_run stub_indexing (PList [PInt 3]) empty_world"
    using T [of _ _ "PInt 3", THEN conjunct2, THEN conjunct1] by simp
  have ok: "list_all (\<lambda>item. isinstance_str item \<or> isinstance_Document item) ?good"
    by simp
  from T [of ?good, THEN conjunct2, THEN conjunct2, THEN mp, OF ok]
  obtain input where
    run: "collect_input ?good [] empty_world =
        (Inr input, empty_world\<lparr>uuid_count := uuid_count empty_world + length (filter isinstance_str ?good)\<rparr>)"
    and len: "length input = length ?good"
    and strs: "\<forall>i<length ?good. \<forall>s. ?good ! i = PStr s \<longrightarrow>
         input ! i = new_Document s (uuid_seq empty_world (uuid_count empty_world + length (filter isinstance_str (take i ?good))))"
    and docs: "\<forall>i<length ?good. \<forall>d. ?good ! i = PDoc d \<longrightarrow> input ! i = d"
    and fresh: "inj (uuid_seq empty_world) \<longrightarrow>
         (\<forall>i<length ?good. isinstance_str (?good ! i) \<longrightarrow>
            (\<forall>n<uuid_count empty_world. doc_id (input ! i) \<noteq> uuid_seq empty_world n)
          \<and> (\<forall>j<length ?good. i < j \<and> isinstance_str (?good ! j) \<longrightarrow>
                doc_id (input ! i) \<noteq> doc_id (input ! j)))"
    by blast
  have one: "inj (uuid_seq empty_world)"
    by (simp add: empty_world_def stub_uuids_def inj_def)
  from len obtain a b c where abc: "input = [a, b, c]"
    by (auto simp: length_Suc_conv)
  from strs [rule_format, of 0 "''cat''"] abc have a: "a = new_Document ''cat'' ''u''"
    by (simp add: empty_world_def stub_uuids_def)
  from docs [rule_format, of 1 doc_b] abc have b: "b = doc_b"
    by simp
  from strs [rule_format, of 2 "''dog''"] abc have c: "c = new_Document ''dog'' ''uu''"
    by (simp add: empty_world_def stub_uuids_def)
  have C: "collect_input ?good [] empty_world =
      (Inr [new_Document ''cat'' ''u'', doc_b, new_Document ''dog'' ''uu''], empty_world\<lparr>uuid_count := 2\<rparr>)"
    using run abc a b c by (simp add: empty_world_def)
  from A A' have "VectorIndexing_run stub_indexing (PList ?bad) empty_world =
     (Inl (ValueError (''Invalid input type <class '' @ quoted ''int'' @ ''>, should be str or Document'')),
      empty_world\<lparr>uuid_count := 1\<rparr>)"
    by (simp add: prod_eq_iff)
  moreover from fresh [THEN mp, OF one, rule_format, of 0, THEN conjunct2, rule_format, of 2] abc a c
  have "doc_id (new_Document ''cat'' ''u'') \<noteq> doc_id (new_Document ''dog'' ''uu'')"
    by simp
  ultimately show ?thesis
    using B C one by blast
qed

section \<open>The Cohere reranker\<close>

text \<open>
  As stated, claim C6 does not hold of \<^verbatim>\<open>CohereReranking\<close>, the one reranker in the
  sources: the import of the package and the construction of the client come before the
  test for an empty list. Where the package is not installed the call on an empty list
  raises \<^verbatim>\<open>ImportError\<close>, and where it is installed the call on an empty list has called
  the package once, to construct the client.
\<close>

theorem empty_input_counterexample:
  "CohereReranking_run stub_reranking (stub_cohere\<lparr>importable := False\<rparr>) [] ''cat'' object_world =
     (Inl (ImportError ''Please install Cohere `pip install cohere` to use Cohere Reranking''), object_world)
   \<and> calls (snd (CohereReranking_run stub_reranking stub_cohere [] ''cat'' object_world)) = [CohereClient ''key'']"
  by (simp add: CohereReranking_run_def stub_cohere_def stub_reranking_def object_world_def raise_def ret_def
        andThen_def extcall_def)

text \<open>
  Claim C6, amended. Called with an empty list of documents, \<^verbatim>\<open>CohereReranking\<close> never
  sends a rerank request and changes no object. It first imports the package and
  constructs the client with the API key, the one call it makes: when both succeed it
  returns the empty list, when the package cannot be imported it raises \<^verbatim>\<open>ImportError\<close>
  without any call, and when the construction raises, that error is the outcome.
\<close>

theorem empty_input_makes_no_rerank_request:
  "(\<not> importable cohere \<longrightarrow>
      CohereReranking_run self cohere [] query w =
        (Inl (ImportError ''Please install Cohere `pip install cohere` to use Cohere Reranking''), w))
   \<and> (importable cohere \<longrightarrow>
      CohereReranking_run self cohere [] query w =
        (case Client cohere (calls w) (cohere_api_key self) of Inl e \<Rightarrow> Inl e | Inr client \<Rightarrow> Inr [],
         w\<lparr>calls := calls w @ [CohereClient (cohere_api_key self)]\<rparr>))
   \<and> calls (snd (CohereReranking_run self cohere [] query w)) =
       calls w @ (if importable cohere then [CohereClient (cohere_api_key self)] else [])
   \<and> heap (snd (CohereReranking_run self cohere [] query w)) = heap w"
  by (cases "Client cohere (calls w) (cohere_api_key self)")
     (simp_all add: CohereReranking_run_def raise_def ret_def andThen_def extcall_def)

theorem empty_input_makes_no_rerank_request_witness:
  "CohereReranking_run stub_reranking stub_cohere [] ''cat'' object_world =
     (Inr [], object_world\<lparr>calls := [CohereClient ''key'']\<rparr>)
   \<and> CohereReranking_run stub_reranking (stub_cohere\<lparr>importable := False\<rparr>) [] ''cat'' object_world =
     (Inl (ImportError ''Please install Cohere `pip install cohere` to use Cohere Reranking''), object_world)"
proof -
  have yes: "importable stub_cohere"
    by (simp add: stub_cohere_def)
  have no: "\<not> importable (stub_cohere\<lparr>importable := False\<rparr>)"
    by simp
  from empty_input_makes_no_rerank_request [of stub_cohere stub_reranking "''cat''" object_world,
      THEN conjunct2, THEN conjunct1, THEN mp, OF yes]
  have A: "CohereReranking_run stub_reranking stub_cohere [] ''cat'' object_world =
     (Inr [], object_world\<lparr>calls := [CohereClient ''key'']\<rparr>)"
    by (simp add: stub_cohere_def stub_reranking_def object_world_def)
  from empty_input_makes_no_rerank_request [of "stub_cohere\<lparr>importable := False\<rparr>" stub_reranking "''cat''" object_world,
      THEN conjunct1, THEN mp, OF no]
  have B: "CohereReranking_run stub_reranking (stub_cohere\<lparr>importable := False\<rparr>) [] ''cat'' object_world =
     (Inl (ImportError ''Please install Cohere `pip install cohere` to use Cohere Reranking''), object_world)" .
  from A B show ?thesis
    by simp
qed

text \<open>
  What the loop over the results does: the list returned is made of the addresses read
  at the returned indices, in the order of the results, and an object ends with the
  score of the last result that selected it.
\<close>

lemma compress_effect:
  "compress documents results acc w = (Inr out, w') \<Longrightarrow>
     map Inr out = map Inr acc @ map (\<lambda>r. getitem documents (index r)) results
   \<and> calls w' = calls w
   \<and> (\<forall>a. heap w' a =
         (let chosen = filter (\<lambda>r. getitem documents (index r) = Inr a) results in
          if chosen = [] then heap w a
          else (heap w a)\<lparr>metadata := (metadata (heap w a))(''relevance_score'' \<mapsto> MFloat (relevance_score (last chosen)))\<rparr>))"
proof (induction results arbitrary: acc w)
  case Nil
  then show ?case by (simp add: ret_def)
next
  case (Cons r results)
  from Cons.prems obtain doc where doc: "getitem documents (index r) = Inr doc"
    by (cases "getitem documents (index r)") (simp_all add: raise_def)
  let ?w1 = "w\<lparr>heap := (heap w)(doc := (heap w doc)\<lparr>metadata :=
      (metadata (heap w doc))(''relevance_score'' \<mapsto> MFloat (relevance_score r))\<rparr>)\<rparr>"
  from Cons.prems doc have rest: "compress documents results (acc @ [doc]) ?w1 = (Inr out, w')"
    by (simp add: andThen_def set_relevance_score_def)
  note IH = Cons.IH [OF rest]
  have "map Inr out = map Inr acc @ map (\<lambda>r. getitem documents (index r)) (r # results)"
    using IH doc by simp
  moreover have "calls w' = calls w"
    using IH by simp
  moreover have "heap w' a =
         (let chosen = filter (\<lambda>r. getitem documents (index r) = Inr a) (r # results) in
          if chosen = [] then heap w a
          else (heap w a)\<lparr>metadata := (metadata (heap w a))(''relevance_score'' \<mapsto> MFloat (relevance_score (last chosen)))\<rparr>)" for a
  proof (cases "a = doc")
    case True
    with IH doc show ?thesis
      by (simp add: Let_def)
  next
    case False
    with IH doc show ?thesis
      by (simp add: Let_def)
  qed
  ultimately show ?case
    by blast
qed

lemma getitem_member: "getitem xs i = Inr x \<Longrightarrow> x \<in> set xs"
  by (auto simp: getitem_def split: if_splits)

lemma filter_single:
  "distinct (map f xs) \<Longrightarrow> j < length xs \<Longrightarrow> filter (\<lambda>x. f x = f (xs ! j)) xs = [xs ! j]"
proof (induction xs arbitrary: j)
  case Nil
  then show ?case by simp
next
  case (Cons x xs)
  show ?case
  proof (cases j)
    case 0
    have "filter (\<lambda>y. f y = f x) xs = []"
      using Cons.prems(1) by (auto simp: filter_empty_conv intro: rev_image_eqI)
    with 0 show ?thesis by simp
  next
    case (Suc k)
    with Cons.prems have "f x \<noteq> f (xs ! k)"
      by (auto simp: image_iff)
    with Suc Cons show ?thesis by simp
  qed
qed

text \<open>
  Claim C9. When the reranker returns, every element of its output is an address taken
  from the input list, at the index the service returned, so it is the same object; the
  objects in the output have their metadata entry \<^verbatim>\<open>relevance_score\<close> set (to the score
  of the last result that selected them, which is their own result's when the results
  select distinct objects), every other object is as it was, and identifier, content,
  the other metadata entries and the fields of a subclass are unchanged in all of them.
\<close>

theorem cohere_reranker_updates_in_place:
  assumes run: "CohereReranking_run self cohere documents query w = (Inr compressed_docs, w')"
      and some: "documents \<noteq> []"
      and ranked: "client_rerank cohere (calls w @ [CohereClient (cohere_api_key self)]) (model_name self) query
                     (map (\<lambda>d. content (heap w d)) documents) (CohereReranking.top_k self) = Inr results"
  shows "map Inr compressed_docs = map (\<lambda>r. getitem documents (index r)) results
       \<and> set compressed_docs \<subseteq> set documents
       \<and> (\<forall>a. heap w' a =
            (if a \<in> set compressed_docs
             then (heap w a)\<lparr>metadata := (metadata (heap w a))(''relevance_score'' \<mapsto>
                    MFloat (relevance_score (last (filter (\<lambda>r. getitem documents (index r) = Inr a) results))))\<rparr>
             else heap w a))
       \<and> (\<forall>a. doc_id (heap w' a) = doc_id (heap w a) \<and> content (heap w' a) = content (heap w a)
              \<and> Document.more (heap w' a) = Document.more (heap w a)
              \<and> (\<forall>key. key \<noteq> ''relevance_score'' \<longrightarrow> metadata (heap w' a) key = metadata (heap w a) key))
       \<and> (distinct compressed_docs \<longrightarrow>
            (\<forall>j<length results.
               metadata (heap w' (compressed_docs ! j)) ''relevance_score'' = Some (MFloat (relevance_score (results ! j)))))"
proof -
  let ?sel = "\<lambda>r. getitem documents (index r)"
  let ?w2 = "w\<lparr>calls := calls w @ [CohereClient (cohere_api_key self),
      CohereRerank (model_name self) query (map (\<lambda>d. content (heap w d)) documents) (CohereReranking.top_k self)]\<rparr>"
  have imp: "importable cohere"
    using run by (cases "importable cohere") (simp_all add: CohereReranking_run_def raise_def)
  have client: "Client cohere (calls w) (cohere_api_key self) = Inr ()"
    using run imp
    by (cases "Client cohere (calls w) (cohere_api_key self)")
       (simp_all add: CohereReranking_run_def andThen_def extcall_def)
  have loop: "compress documents results [] ?w2 = (Inr compressed_docs, w')"
    using run imp client some ranked
    by (simp add: CohereReranking_run_def andThen_def extcall_def contents_def)
  note effect = compress_effect [OF loop]
  have picked: "map Inr compressed_docs = map ?sel results"
    using effect by simp
  have member: "a \<in> set compressed_docs \<longleftrightarrow> filter (\<lambda>r. ?sel r = Inr a) results \<noteq> []" for a
  proof -
    have "a \<in> set compressed_docs \<longleftrightarrow> Inr a \<in> set (map Inr compressed_docs :: (error + nat) list)"
      by auto
    also have "\<dots> \<longleftrightarrow> Inr a \<in> set (map ?sel results)"
      by (simp only: picked)
    also have "\<dots> \<longleftrightarrow> filter (\<lambda>r. ?sel r = Inr a) results \<noteq> []"
      by (auto simp: filter_empty_conv intro: rev_image_eqI)
    finally show ?thesis .
  qed
  have inside: "set compressed_docs \<subseteq> set documents"
  proof
    fix a assume "a \<in> set compressed_docs"
    then have "\<exists>i. getitem documents i = Inr a"
      unfolding member by (auto simp: filter_empty_conv)
    then show "a \<in> set documents"
      by (auto dest: getitem_member)
  qed
  have heap: "heap w' a =
            (if a \<in> set compressed_docs
             then (heap w a)\<lparr>metadata := (metadata (heap w a))(''relevance_score'' \<mapsto>
                    MFloat (relevance_score (last (filter (\<lambda>r. ?sel r = Inr a) results))))\<rparr>
             else heap w a)" for a
    using effect by (simp add: member Let_def)
  have frame: "doc_id (heap w' a) = doc_id (heap w a) \<and> content (heap w' a) = content (heap w a)
              \<and> Document.more (heap w' a) = Document.more (heap w a)
              \<and> (\<forall>key. key \<noteq> ''relevance_score'' \<longrightarrow> metadata (heap w' a) key = metadata (heap w a) key)" for a
    by (simp add: heap)
  have own: "metadata (heap w' (compressed_docs ! j)) ''relevance_score'' = Some (MFloat (relevance_score (results ! j)))"
    if d: "distinct compressed_docs" and j: "j < length results" for j
  proof -
    have len: "length compressed_docs = length results"
      using picked by (metis length_map)
    have sel_j: "?sel (results ! j) = Inr (compressed_docs ! j)"
      using picked j len by (metis nth_map)
    have "distinct (map Inr compressed_docs :: (error + nat) list)"
      using d by (simp add: distinct_map)
    then have "distinct (map ?sel results)"
      by (simp only: picked)
    from filter_single [OF this j]
    have "filter (\<lambda>r. ?sel r = Inr (compressed_docs ! j)) results = [results ! j]"
      by (simp add: sel_j)
    moreover have "compressed_docs ! j \<in> set compressed_docs"
      using j len by simp
    ultimately show ?thesis
      by (simp add: heap)
  qed
  from picked inside heap frame own show ?thesis
    by blast
qed

theorem cohere_reranker_updates_in_place_witness:
  "fst (CohereReranking_run (stub_reranking\<lparr>CohereReranking.top_k := 2\<rparr>) stub_cohere [0, 1] ''cat'' object_world) = Inr [1, 0]
   \<and> heap (snd (CohereReranking_run (stub_reranking\<lparr>CohereReranking.top_k := 2\<rparr>) stub_cohere [0, 1] ''cat'' object_world)) 1
       = (new_RetrievedDocument doc_b 2)\<lparr>metadata := (metadata doc_b)(''relevance_score'' \<mapsto> MFloat (1 / 2))\<rparr>
   \<and> metadata (heap (snd (CohereReranking_run (stub_reranking\<lparr>CohereReranking.top_k := 2\<rparr>) stub_cohere [0, 1] ''cat'' object_world)) 0)
         ''relevance_score'' = Some (MFloat 0)"
proof -
  let ?self = "stub_reranking\<lparr>CohereReranking.top_k := 2\<rparr>"
  let ?results = "[\<lparr>index = 1, relevance_score = 1 / 2\<rparr>, \<lparr>index = 0, relevance_score = 0\<rparr>]"
  obtain out w' where run: "CohereReranking_run ?self stub_cohere [0, 1] ''cat'' object_world = (out, w')"
    by (cases "CohereReranking_run ?self stub_cohere [0, 1] ''cat'' object_world")
  have ranked: "client_rerank stub_cohere (calls object_world @ [CohereClient (cohere_api_key ?self)]) (model_name ?self) ''cat''
      (map (\<lambda>d. content (heap object_world d)) [0, 1]) (CohereReranking.top_k ?self) = Inr ?results"
    by (simp add: stub_cohere_def stub_reranking_def numeral_2_eq_2)
  have out: "out = Inr [1, 0]"
    using run
    by (simp add: CohereReranking_run_def stub_cohere_def stub_reranking_def andThen_def extcall_def contents_def
          set_relevance_score_def getitem_def ret_def numeral_2_eq_2)
  have some: "[0, 1::nat] \<noteq> []"
    by simp
  from cohere_reranker_updates_in_place [OF run [unfolded out] some ranked, THEN conjunct2, THEN conjunct2, THEN conjunct1, rule_format, of 1]
  have "heap w' 1 = (new_RetrievedDocument doc_b 2)\<lparr>metadata := (metadata doc_b)(''relevance_score'' \<mapsto> MFloat (1 / 2))\<rparr>"
    by (simp add: getitem_def object_world_def new_RetrievedDocument_def)
  moreover have "distinct [1, 0::nat]"
    by simp
  from cohere_reranker_updates_in_place [OF run [unfolded out] some ranked, THEN conjunct2, THEN conjunct2,
      THEN conjunct2, THEN conjunct2, THEN mp, OF this, rule_format, of 1]
  have "metadata (heap w' 0) ''relevance_score'' = Some (MFloat 0)"
    by simp
  ultimately show ?thesis
    using run out by simp
qed

section \<open>Saving and loading the indexing pipeline\<close>

text \<open>
  As stated, claim C10 does not hold. The two names are keyword parameters, and a call
  that passes others saves under those. On a pipeline whose document store is \<open>None\<close>,
  \<^verbatim>\<open>save\<close> has the vector store saved, alone, before it fails. And on a pipeline built
  without the \<open>doc_store\<close> parameter, indexing fails too, after the write to the vector
  store.
\<close>

theorem save_and_load_counterexample:
  "save stub_pipeline (Path [''idx'']) (Some ''vectors'') (Some ''documents'') indexed_world =
     (Inr (), indexed_world\<lparr>calls := calls indexed_world @
        [VSSave (Path [''idx'', ''vectors'']), DSSave (Path [''idx'', ''documents''])]\<rparr>)
   \<and> save (stub_pipeline\<lparr>IndexVectorStoreFromDocumentPipeline.doc_store := Given None\<rparr>) (Path [''idx'']) None None
       indexed_world =
     (Inl (no_attribute ''save''),
      indexed_world\<lparr>calls := calls indexed_world @ [VSSave (Path [''idx'', ''vectorstore''])]\<rparr>)
   \<and> run_batch_document (stub_pipeline\<lparr>IndexVectorStoreFromDocumentPipeline.doc_store := Unset\<rparr>) [doc_a]
       indexed_world =
     (Inl (unset_parameter ''doc_store''),
      indexed_world\<lparr>calls := calls indexed_world @
        [Embed (PList [PDoc doc_a]), VSAdd [stub_embed_one (PDoc doc_a)] [''a'']]\<rparr>)"
  by (simp add: save_def run_batch_document_def stub_pipeline_def stub_vector_store_def stub_document_store_def
        stub_embeddings_def andThen_def raise_def call_embedding_def add_vectors_def extcall_def doc_a_def
        VECTOR_STORE_FNAME_def)

text \<open>
  Claim C10, amended. \<^verbatim>\<open>save\<close> calls the vector store's \<^verbatim>\<open>save\<close> on the path joined with
  the vector store name and then, with no test of the document store, the document
  store's \<^verbatim>\<open>save\<close> on the path joined with the document store name; the names are
  \<^verbatim>\<open>'vectorstore'\<close> and \<^verbatim>\<open>'docstore'\<close> unless the caller passes others; \<^verbatim>\<open>load\<close> does the same
  with the two \<^verbatim>\<open>load\<close>s. When the document store is \<open>None\<close>, the call to the vector store
  is made first and the operation then fails, with the \<^verbatim>\<open>AttributeError\<close> of \<open>None\<close> when
  that call returned; \<^verbatim>\<open>run_batch_document\<close> on such a pipeline succeeds, having written
  to the vector store only. On a pipeline built without the parameter it fails after
  that write.
\<close>

theorem save_and_load_need_a_doc_store:
  "(let V = IndexVectorStoreFromDocumentPipeline.vector_store self;
        E = IndexVectorStoreFromDocumentPipeline.embedding self;
        p1 = truediv path (case vectorstore_fname of None \<Rightarrow> ''vectorstore'' | Some name \<Rightarrow> name);
        p2 = truediv path (case docstore_fname of None \<Rightarrow> ''docstore'' | Some name \<Rightarrow> name)
    in
      (\<forall>ds. IndexVectorStoreFromDocumentPipeline.doc_store self = Given (Some ds) \<and>
             vs_save V (calls w) p1 = Inr () \<longrightarrow>
         save self path vectorstore_fname docstore_fname w =
           (ds_save ds (calls w @ [VSSave p1]) p2, w\<lparr>calls := calls w @ [VSSave p1, DSSave p2]\<rparr>))
    \<and> (\<forall>ds. IndexVectorStoreFromDocumentPipeline.doc_store self = Given (Some ds) \<and>
             vs_load V (calls w) p1 = Inr () \<longrightarrow>
         load self path vectorstore_fname docstore_fname w =
           (ds_load ds (calls w @ [VSLoad p1]) p2, w\<lparr>calls := calls w @ [VSLoad p1, DSLoad p2]\<rparr>))
    \<and> (IndexVectorStoreFromDocumentPipeline.doc_store self = Given None \<longrightarrow>
         isl (fst (save self path vectorstore_fname docstore_fname w))
       \<and> snd (save self path vectorstore_fname docstore_fname w) = w\<lparr>calls := calls w @ [VSSave p1]\<rparr>
       \<and> (vs_save V (calls w) p1 = Inr () \<longrightarrow>
            fst (save self path vectorstore_fname docstore_fname w) = Inl (no_attribute ''save''))
       \<and> isl (fst (load self path vectorstore_fname docstore_fname w))
       \<and> snd (load self path vectorstore_fname docstore_fname w) = w\<lparr>calls := calls w @ [VSLoad p1]\<rparr>
       \<and> (vs_load V (calls w) p1 = Inr () \<longrightarrow>
            fst (load self path vectorstore_fname docstore_fname w) = Inl (no_attribute ''load''))
       \<and> (\<forall>docs embeddings.
             embed E (calls w) (PList (map PDoc docs)) = Inr embeddings \<and>
             vs_add V (calls w @ [Embed (PList (map PDoc docs))]) embeddings (map doc_id docs) = Inr () \<longrightarrow>
             run_batch_document self docs w =
               (Inr (), w\<lparr>calls := calls w @ [Embed (PList (map PDoc docs)), VSAdd embeddings (map doc_id docs)]\<rparr>)))
    \<and> (IndexVectorStoreFromDocumentPipeline.doc_store self = Unset \<longrightarrow>
         (\<forall>docs embeddings.
             embed E (calls w) (PList (map PDoc docs)) = Inr embeddings \<and>
             vs_add V (calls w @ [Embed (PList (map PDoc docs))]) embeddings (map doc_id docs) = Inr () \<longrightarrow>
             run_batch_document self docs w =
               (Inl (unset_parameter ''doc_store''),
                w\<lparr>calls := calls w @ [Embed (PList (map PDoc docs)), VSAdd embeddings (map doc_id docs)]\<rparr>))))"
proof -
  let ?V = "IndexVectorStoreFromDocumentPipeline.vector_store self"
  let ?S = "IndexVectorStoreFromDocumentPipeline.doc_store self"
  let ?p1 = "truediv path (case vectorstore_fname of None \<Rightarrow> ''vectorstore'' | Some name \<Rightarrow> name)"
  let ?p2 = "truediv path (case docstore_fname of None \<Rightarrow> ''docstore'' | Some name \<Rightarrow> name)"
  have both_save: "save self path vectorstore_fname docstore_fname w =
      (ds_save ds (calls w @ [VSSave ?p1]) ?p2, w\<lparr>calls := calls w @ [VSSave ?p1, DSSave ?p2]\<rparr>)"
    if "?S = Given (Some ds)" "vs_save ?V (calls w) ?p1 = Inr ()" for ds
    using that
    by (cases vectorstore_fname; cases docstore_fname)
       (simp_all add: save_def andThen_def extcall_def VECTOR_STORE_FNAME_def DOC_STORE_FNAME_def)
  have both_load: "load self path vectorstore_fname docstore_fname w =
      (ds_load ds (calls w @ [VSLoad ?p1]) ?p2, w\<lparr>calls := calls w @ [VSLoad ?p1, DSLoad ?p2]\<rparr>)"
    if "?S = Given (Some ds)" "vs_load ?V (calls w) ?p1 = Inr ()" for ds
    using that
    by (cases vectorstore_fname; cases docstore_fname)
       (simp_all add: load_def andThen_def extcall_def VECTOR_STORE_FNAME_def DOC_STORE_FNAME_def)
  have none_save: "isl (fst (save self path vectorstore_fname docstore_fname w))
       \<and> snd (save self path vectorstore_fname docstore_fname w) = w\<lparr>calls := calls w @ [VSSave ?p1]\<rparr>
       \<and> (vs_save ?V (calls w) ?p1 = Inr () \<longrightarrow>
            fst (save self path vectorstore_fname docstore_fname w) = Inl (no_attribute ''save''))"
    if "?S = Given None"
    using that
    by (cases "vs_save ?V (calls w) ?p1"; cases vectorstore_fname)
       (simp_all add: save_def andThen_def extcall_def raise_def VECTOR_STORE_FNAME_def)
  have none_load: "isl (fst (load self path vectorstore_fname docstore_fname w))
       \<and> snd (load self path vectorstore_fname docstore_fname w) = w\<lparr>calls := calls w @ [VSLoad ?p1]\<rparr>
       \<and> (vs_load ?V (calls w) ?p1 = Inr () \<longrightarrow>
            fst (load self path vectorstore_fname docstore_fname w) = Inl (no_attribute ''load''))"
    if "?S = Given None"
    using that
    by (cases "vs_load ?V (calls w) ?p1"; cases vectorstore_fname)
       (simp_all add: load_def andThen_def extcall_def raise_def VECTOR_STORE_FNAME_def)
  have indexing: "run_batch_document self docs w =
      (Inr (), w\<lparr>calls := calls w @ [Embed (PList (map PDoc docs)), VSAdd embeddings (map doc_id docs)]\<rparr>)"
    if "?S = Given None"
       "embed (IndexVectorStoreFromDocumentPipeline.embedding self) (calls w) (PList (map PDoc docs)) = Inr embeddings"
       "vs_add ?V (calls w @ [Embed (PList (map PDoc docs))]) embeddings (map doc_id docs) = Inr ()"
    for docs embeddings
    using that
    by (simp add: run_batch_document_def andThen_def call_embedding_def add_vectors_def extcall_def ret_def)
  have unset: "run_batch_document self docs w =
      (Inl (unset_parameter ''doc_store''),
       w\<lparr>calls := calls w @ [Embed (PList (map PDoc docs)), VSAdd embeddings (map doc_id docs)]\<rparr>)"
    if "?S = Unset"
       "embed (IndexVectorStoreFromDocumentPipeline.embedding self) (calls w) (PList (map PDoc docs)) = Inr embeddings"
       "vs_add ?V (calls w @ [Embed (PList (map PDoc docs))]) embeddings (map doc_id docs) = Inr ()"
    for docs embeddings
    using that
    by (simp add: run_batch_document_def andThen_def call_embedding_def add_vectors_def extcall_def raise_def)
  show ?thesis
    unfolding Let_def
    using both_save both_load none_save none_load indexing unset by blast
qed

theorem save_and_load_need_a_doc_store_witness:
  "save (stub_pipeline\<lparr>IndexVectorStoreFromDocumentPipeline.doc_store := Given None\<rparr>) (Path [''idx'']) None None indexed_world =
     (Inl (AttributeError (quoted ''NoneType'' @ '' object has no attribute '' @ quoted ''save'')),
      indexed_world\<lparr>calls := calls indexed_world @ [VSSave (Path [''idx'', ''vectorstore''])]\<rparr>)
   \<and> load (stub_pipeline\<lparr>IndexVectorStoreFromDocumentPipeline.doc_store := Given None\<rparr>) (Path [''idx'']) None None indexed_world =
     (Inl (AttributeError (quoted ''NoneType'' @ '' object has no attribute '' @ quoted ''load'')),
      indexed_world\<lparr>calls := calls indexed_world @ [VSLoad (Path [''idx'', ''vectorstore''])]\<rparr>)
   \<and> run_batch_document (stub_pipeline\<lparr>IndexVectorStoreFromDocumentPipeline.doc_store := Given None\<rparr>) [doc_a] indexed_world =
     (Inr (), indexed_world\<lparr>calls := calls indexed_world @
        [Embed (PList [PDoc doc_a]), VSAdd [stub_embed_one (PDoc doc_a)] [''a'']]\<rparr>)
   \<and> save stub_pipeline (Path [''idx'']) None (Some ''documents'') indexed_world =
     (Inr (), indexed_world\<lparr>calls := calls indexed_world @
        [VSSave (Path [''idx'', ''vectorstore'']), DSSave (Path [''idx'', ''documents''])]\<rparr>)
   \<and> run_batch_document (stub_pipeline\<lparr>IndexVectorStoreFromDocumentPipeline.doc_store := Unset\<rparr>) [doc_a] indexed_world =
     (Inl (unset_parameter ''doc_store''), indexed_world\<lparr>calls := calls indexed_world @
        [Embed (PList [PDoc doc_a]), VSAdd [stub_embed_one (PDoc doc_a)] [''a'']]\<rparr>)"
proof -
  let ?self = "stub_pipeline\<lparr>IndexVectorStoreFromDocumentPipeline.doc_store := Given None\<rparr>"
  let ?bare = "stub_pipeline\<lparr>IndexVectorStoreFromDocumentPipeline.doc_store := Unset\<rparr>"
  let ?w = indexed_world
  note T = save_and_load_need_a_doc_store [of ?self "Path [''idx'']" None None ?w, unfolded Let_def]
  have none: "IndexVectorStoreFromDocumentPipeline.doc_store ?self = Given None"
    by simp
  note N = T [THEN conjunct2, THEN conjunct2, THEN conjunct1, THEN mp, OF none]
  have A: "save ?self (Path [''idx'']) None None ?w =
     (Inl (no_attribute ''save''), ?w\<lparr>calls := calls ?w @ [VSSave (Path [''idx'', ''vectorstore''])]\<rparr>)"
    using N by (simp add: prod_eq_iff stub_pipeline_def stub_vector_store_def)
  have B: "load ?self (Path [''idx'']) None None ?w =
     (Inl (no_attribute ''load''), ?w\<lparr>calls := calls ?w @ [VSLoad (Path [''idx'', ''vectorstore''])]\<rparr>)"
    using N by (simp add: prod_eq_iff stub_pipeline_def stub_vector_store_def)
  have C: "run_batch_document ?self [doc_a] ?w =
     (Inr (), ?w\<lparr>calls := calls ?w @ [Embed (PList [PDoc doc_a]), VSAdd [stub_embed_one (PDoc doc_a)] [''a'']]\<rparr>)"
    using N [THEN conjunct2, THEN conjunct2, THEN conjunct2, THEN conjunct2, THEN conjunct2, THEN conjunct2,
             THEN spec, THEN spec, of "[doc_a]" "[stub_embed_one (PDoc doc_a)]"]
    by (simp add: stub_pipeline_def stub_vector_store_def stub_embeddings_def doc_a_def)
  have D: "save stub_pipeline (Path [''idx'']) None (Some ''documents'') ?w =
     (Inr (), ?w\<lparr>calls := calls ?w @ [VSSave (Path [''idx'', ''vectorstore'']), DSSave (Path [''idx'', ''documents''])]\<rparr>)"
    using save_and_load_need_a_doc_store [of stub_pipeline "Path [''idx'']" None "Some ''documents''" ?w,
        unfolded Let_def, THEN conjunct1, THEN spec, of stub_document_store]
    by (simp add: stub_pipeline_def stub_vector_store_def stub_document_store_def)
  have unset: "IndexVectorStoreFromDocumentPipeline.doc_store ?bare = Unset"
    by simp
  have E: "run_batch_document ?bare [doc_a] ?w =
     (Inl (unset_parameter ''doc_store''),
      ?w\<lparr>calls := calls ?w @ [Embed (PList [PDoc doc_a]), VSAdd [stub_embed_one (PDoc doc_a)] [''a'']]\<rparr>)"
    using save_and_load_need_a_doc_store [of ?bare "Path [''idx'']" None None ?w, unfolded Let_def,
        THEN conjunct2, THEN conjunct2, THEN conjunct2, THEN mp, OF unset,
        THEN spec, THEN spec, of "[doc_a]" "[stub_embed_one (PDoc doc_a)]"]
    by (simp add: stub_pipeline_def stub_vector_store_def stub_embeddings_def doc_a_def)
  from A B C D E show ?thesis
    by (simp add: no_attribute_def)
qed

end
